theory Spec2Isabelle
  imports Complex_Main
begin

section \<open>Python values, exceptions and library calls used by \<^verbatim>\<open>dataset.py\<close>\<close>

text \<open>
  Exceptions are values. The constructors up to \<open>AssertionError\<close> are exception classes
  that the statements of \<^verbatim>\<open>dataset.py\<close> and the standard library calls it makes can
  raise. \<open>FileNotFoundError\<close> carries the path that was opened (its \<open>filename\<close>),
  \<open>KeyError\<close> the key; the exceptions of the two parsers carry no path.
  \<open>ConfigLoadError\<close> and \<open>DateNotFoundError\<close> are the error kinds named in section 7 of
  the specification; no statement of the source raises them, they are constructors only so
  that statements about them can be written down.
\<close>

datatype py_error =
    FileNotFoundError string
  | JSONDecodeError
  | UnicodeDecodeError
  | UnpicklingError
  | EOFError
  | PicklingError
  | KeyError string
  | IndexError
  | TypeError
  | AttributeError
  | ValueError
  | AssertionError
  | ConfigLoadError string
  | DateNotFoundError

text \<open>
  The attributes of a \<open>DataSet\<close> are dynamically typed: \<open>load_dataset_config\<close> stores
  whatever the JSON document holds. They are modelled as Python values. A float is carried
  as a rational (the pipeline never computes with the floats stored in a configuration);
  dictionary keys are strings or integers; \<open>PObj\<close> is an object that is opaque to
  \<^verbatim>\<open>dataset.py\<close> (a fitted transformer), identified by a number, which \<open>pickle\<close>
  accepts; \<open>PUnpicklable\<close> is an opaque object that \<open>pickle.dump\<close> rejects, given with the
  exception it raises for it.
\<close>

datatype pykey = KStr string | KInt int

datatype pyval =
    PNone
  | PBool bool
  | PInt int
  | PFloat rat
  | PStr string
  | PList "pyval list"
  | PTuple "pyval list"
  | PDict "(pykey \<times> pyval) list"
  | PObj nat
  | PUnpicklable py_error

datatype json =
    JNull
  | JBool bool
  | JInt int
  | JFloat rat
  | JString string
  | JArray "json list"
  | JObject "(string \<times> json) list"

text \<open>Decimal text of an integer, as \<open>str(int)\<close> gives it.\<close>

fun str_of_nat :: "nat \<Rightarrow> string" where
  "str_of_nat n =
     (if n < 10 then [char_of (48 + n)]
      else str_of_nat (n div 10) @ [char_of (48 + n mod 10)])"

declare str_of_nat.simps [simp del]

definition str_of_int :: "int \<Rightarrow> string" where
  "str_of_int i = (if i < 0 then CHR ''-'' # str_of_nat (nat (- i)) else str_of_nat (nat i))"

text \<open>
  \<open>json.dump\<close>: tuples and lists both become arrays, integer keys of a dictionary become
  their decimal text, an object that is not one of the basic types raises \<open>TypeError\<close>.
\<close>

definition json_key :: "pykey \<Rightarrow> string" where
  "json_key k = (case k of KStr s \<Rightarrow> s | KInt i \<Rightarrow> str_of_int i)"

fun json_dumps :: "pyval \<Rightarrow> py_error + json"
  and json_dumps_list :: "pyval list \<Rightarrow> py_error + json list"
  and json_dumps_items :: "(pykey \<times> pyval) list \<Rightarrow> py_error + (string \<times> json) list"
where
  "json_dumps PNone = Inr JNull"
| "json_dumps (PBool b) = Inr (JBool b)"
| "json_dumps (PInt i) = Inr (JInt i)"
| "json_dumps (PFloat r) = Inr (JFloat r)"
| "json_dumps (PStr s) = Inr (JString s)"
| "json_dumps (PList xs) =
     (case json_dumps_list xs of Inl e \<Rightarrow> Inl e | Inr js \<Rightarrow> Inr (JArray js))"
| "json_dumps (PTuple xs) =
     (case json_dumps_list xs of Inl e \<Rightarrow> Inl e | Inr js \<Rightarrow> Inr (JArray js))"
| "json_dumps (PDict kvs) =
     (case json_dumps_items kvs of Inl e \<Rightarrow> Inl e | Inr ms \<Rightarrow> Inr (JObject ms))"
| "json_dumps (PObj n) = Inl TypeError"
| "json_dumps (PUnpicklable e) = Inl TypeError"
| "json_dumps_list [] = Inr []"
| "json_dumps_list (x # xs) =
     (case json_dumps x of Inl e \<Rightarrow> Inl e
      | Inr j \<Rightarrow> (case json_dumps_list xs of Inl e \<Rightarrow> Inl e | Inr js \<Rightarrow> Inr (j # js)))"
| "json_dumps_items [] = Inr []"
| "json_dumps_items ((k, v) # kvs) =
     (case json_dumps v of Inl e \<Rightarrow> Inl e
      | Inr j \<Rightarrow>
         (case json_dumps_items kvs of Inl e \<Rightarrow> Inl e
          | Inr ms \<Rightarrow> Inr ((json_key k, j) # ms)))"

text \<open>
  Assignment \<open>d[k] = v\<close> on a dictionary kept as an association list in insertion order:
  an existing key keeps its place and takes the new value.
\<close>

fun dict_set :: "(pykey \<times> pyval) list \<Rightarrow> pykey \<Rightarrow> pyval \<Rightarrow> (pykey \<times> pyval) list" where
  "dict_set [] k v = [(k, v)]"
| "dict_set ((k', v') # d) k v = (if k' = k then (k, v) # d else (k', v') # dict_set d k v)"

text \<open>
  \<open>json.load\<close>: arrays become lists, objects become dictionaries with string keys, filled
  member by member (a repeated name keeps its last value).
\<close>

fun json_loads :: "json \<Rightarrow> pyval"
  and json_loads_list :: "json list \<Rightarrow> pyval list"
  and json_loads_members :: "(pykey \<times> pyval) list \<Rightarrow> (string \<times> json) list \<Rightarrow> (pykey \<times> pyval) list"
where
  "json_loads JNull = PNone"
| "json_loads (JBool b) = PBool b"
| "json_loads (JInt i) = PInt i"
| "json_loads (JFloat r) = PFloat r"
| "json_loads (JString s) = PStr s"
| "json_loads (JArray js) = PList (json_loads_list js)"
| "json_loads (JObject ms) = PDict (json_loads_members [] ms)"
| "json_loads_list [] = []"
| "json_loads_list (j # js) = json_loads j # json_loads_list js"
| "json_loads_members d [] = d"
| "json_loads_members d ((k, j) # ms) = json_loads_members (dict_set d (KStr k) (json_loads j)) ms"


text \<open>
  \<open>pickle.dump\<close> visits the value and raises at the first object it rejects; what it
  writes reads back as the same value.
\<close>

fun pickle_dumps :: "pyval \<Rightarrow> py_error + pyval"
  and pickle_dumps_list :: "pyval list \<Rightarrow> py_error + pyval list"
  and pickle_dumps_items :: "(pykey \<times> pyval) list \<Rightarrow> py_error + (pykey \<times> pyval) list"
where
  "pickle_dumps PNone = Inr PNone"
| "pickle_dumps (PBool b) = Inr (PBool b)"
| "pickle_dumps (PInt i) = Inr (PInt i)"
| "pickle_dumps (PFloat r) = Inr (PFloat r)"
| "pickle_dumps (PStr s) = Inr (PStr s)"
| "pickle_dumps (PList xs) =
     (case pickle_dumps_list xs of Inl e \<Rightarrow> Inl e | Inr ys \<Rightarrow> Inr (PList ys))"
| "pickle_dumps (PTuple xs) =
     (case pickle_dumps_list xs of Inl e \<Rightarrow> Inl e | Inr ys \<Rightarrow> Inr (PTuple ys))"
| "pickle_dumps (PDict kvs) =
     (case pickle_dumps_items kvs of Inl e \<Rightarrow> Inl e | Inr ms \<Rightarrow> Inr (PDict ms))"
| "pickle_dumps (PObj n) = Inr (PObj n)"
| "pickle_dumps (PUnpicklable e) = Inl e"
| "pickle_dumps_list [] = Inr []"
| "pickle_dumps_list (x # xs) =
     (case pickle_dumps x of Inl e \<Rightarrow> Inl e
      | Inr y \<Rightarrow> (case pickle_dumps_list xs of Inl e \<Rightarrow> Inl e | Inr ys \<Rightarrow> Inr (y # ys)))"
| "pickle_dumps_items [] = Inr []"
| "pickle_dumps_items ((k, v) # kvs) =
     (case pickle_dumps v of Inl e \<Rightarrow> Inl e
      | Inr y \<Rightarrow>
         (case pickle_dumps_items kvs of Inl e \<Rightarrow> Inl e | Inr ms \<Rightarrow> Inr ((k, y) # ms)))"

text \<open>
  A file is described by what the two parsers of the program return on it: \<open>as_json\<close> is the
  result of \<open>json.load\<close> on the file opened as text (in UTF-8), \<open>as_pickle\<close> the result of
  \<open>pickle.load\<close> on the file opened in binary mode. So an empty file is
  \<open>\<lparr>as_json = Inl JSONDecodeError, as_pickle = Inl EOFError\<rparr>\<close>, and a file of bytes that are
  not UTF-8 has \<open>as_json = Inl UnicodeDecodeError\<close>. The file system has directories and
  files; every directory it has can be written to.
\<close>

record file_content =
  as_json :: "py_error + json"
  as_pickle :: "py_error + pyval"

record filesystem =
  fs_dirs :: "string list"
  fs_files :: "string \<rightharpoonup> file_content"

definition os_path_join :: "string \<Rightarrow> string \<Rightarrow> string" where
  "os_path_join a b =
     (if a = [] then b
      else if last a = CHR ''/'' then a @ b
      else a @ ''/'' @ b)"

text \<open>
  \<open>open(path, "w")\<close> and \<open>open(path, "wb")\<close> create the file in the directory part of the
  path (what precedes its last slash) and raise \<open>FileNotFoundError\<close> when that directory does
  not exist. The empty directory part is the working directory; trailing slashes of a
  directory name do not count.
\<close>

definition dirname :: "string \<Rightarrow> string" where
  "dirname path = rev (drop 1 (dropWhile (\<lambda>c. c \<noteq> CHR ''/'') (rev path)))"

definition dir_exists :: "filesystem \<Rightarrow> string \<Rightarrow> bool" where
  "dir_exists fs d =
     (let d' = rev (dropWhile (\<lambda>c. c = CHR ''/'') (rev d))
      in d' = [] \<or> d' \<in> set (fs_dirs fs))"

definition open_for_writing :: "filesystem \<Rightarrow> string \<Rightarrow> py_error option" where
  "open_for_writing fs path =
     (if dir_exists fs (dirname path) then None else Some (FileNotFoundError path))"

text \<open>\<open>json.load(open(path))\<close>.\<close>

definition json_load :: "filesystem \<Rightarrow> string \<Rightarrow> py_error + pyval" where
  "json_load fs path =
     (case fs_files fs path of
        None \<Rightarrow> Inl (FileNotFoundError path)
      | Some f \<Rightarrow> (case as_json f of Inl e \<Rightarrow> Inl e | Inr j \<Rightarrow> Inr (json_loads j)))"

text \<open>
  \<open>json.dump(obj, open(path, "w"))\<close>: the file is opened first, then the value is
  serialised. The document that is written is not a pickle. The result is the file system
  after the call or the exception; what a failed call leaves in the file is not modelled.
\<close>

definition json_dump :: "pyval \<Rightarrow> string \<Rightarrow> filesystem \<Rightarrow> py_error + filesystem" where
  "json_dump obj path fs =
     (case open_for_writing fs path of
        Some e \<Rightarrow> Inl e
      | None \<Rightarrow>
         (case json_dumps obj of
            Inl e \<Rightarrow> Inl e
          | Inr j \<Rightarrow>
             Inr (fs\<lparr>fs_files := (fs_files fs)
                     (path \<mapsto> \<lparr>as_json = Inr j, as_pickle = Inl UnpicklingError\<rparr>)\<rparr>)))"

text \<open>
  \<open>with open(path, "rb") as f: pickle.load(f)\<close>, and
  \<open>with open(path, "wb") as f: pickle.dump(obj, f, pickle.HIGHEST_PROTOCOL)\<close>. The pickle
  that is written is binary and starts with a byte that is not UTF-8 text.
\<close>

definition pickle_load :: "filesystem \<Rightarrow> string \<Rightarrow> py_error + pyval" where
  "pickle_load fs path =
     (case fs_files fs path of
        None \<Rightarrow> Inl (FileNotFoundError path)
      | Some f \<Rightarrow> as_pickle f)"

definition pickle_dump :: "pyval \<Rightarrow> string \<Rightarrow> filesystem \<Rightarrow> py_error + filesystem" where
  "pickle_dump obj path fs =
     (case open_for_writing fs path of
        Some e \<Rightarrow> Inl e
      | None \<Rightarrow>
         (case pickle_dumps obj of
            Inl e \<Rightarrow> Inl e
          | Inr v \<Rightarrow>
             Inr (fs\<lparr>fs_files := (fs_files fs)
                     (path \<mapsto> \<lparr>as_json = Inl UnicodeDecodeError, as_pickle = Inr v\<rparr>)\<rparr>)))"

text \<open>\<open>d[key]\<close> with a string key: only a dictionary can be subscripted by a string.\<close>

definition py_getitem_str :: "pyval \<Rightarrow> string \<Rightarrow> py_error + pyval" where
  "py_getitem_str d key =
     (case d of
        PDict kvs \<Rightarrow> (case map_of kvs (KStr key) of None \<Rightarrow> Inl (KeyError key) | Some v \<Rightarrow> Inr v)
      | _ \<Rightarrow> Inl TypeError)"

text \<open>
  \<open>x[i]\<close> with an integer literal: sequences count negative indices from the end, a
  dictionary looks the integer up as a key.
\<close>

definition seq_index :: "'a list \<Rightarrow> int \<Rightarrow> py_error + 'a" where
  "seq_index xs i =
     (if 0 \<le> i \<and> i < int (length xs) then Inr (xs ! nat i)
      else if i < 0 \<and> - int (length xs) \<le> i then Inr (xs ! nat (int (length xs) + i))
      else Inl IndexError)"

definition py_getitem_int :: "pyval \<Rightarrow> int \<Rightarrow> py_error + pyval" where
  "py_getitem_int x i =
     (case x of
        PList xs \<Rightarrow> seq_index xs i
      | PTuple xs \<Rightarrow> seq_index xs i
      | PStr s \<Rightarrow> (case seq_index s i of Inl e \<Rightarrow> Inl e | Inr c \<Rightarrow> Inr (PStr [c]))
      | PDict kvs \<Rightarrow>
          (case map_of kvs (KInt i) of None \<Rightarrow> Inl (KeyError (str_of_int i)) | Some v \<Rightarrow> Inr v)
      | _ \<Rightarrow> Inl TypeError)"

text \<open>The items a \<open>for\<close> loop visits.\<close>

definition py_iter :: "pyval \<Rightarrow> py_error + pyval list" where
  "py_iter x =
     (case x of
        PList xs \<Rightarrow> Inr xs
      | PTuple xs \<Rightarrow> Inr xs
      | PStr s \<Rightarrow> Inr (map (\<lambda>c. PStr [c]) s)
      | PDict kvs \<Rightarrow> Inr (map (\<lambda>(k, v). case k of KStr s \<Rightarrow> PStr s | KInt i \<Rightarrow> PInt i) kvs)
      | _ \<Rightarrow> Inl TypeError)"

text \<open>\<open>"literal" + x\<close>: only a string can be added to a string.\<close>

definition py_str_add :: "string \<Rightarrow> pyval \<Rightarrow> py_error + pyval" where
  "py_str_add s x = (case x of PStr t \<Rightarrow> Inr (PStr (s @ t)) | _ \<Rightarrow> Inl TypeError)"

text \<open>
  \<open>x.append(arg)\<close>: the method is looked up first (only a list has it), then the
  argument is evaluated, then the item is appended.
\<close>

definition call_append :: "pyval \<Rightarrow> py_error + pyval \<Rightarrow> py_error + pyval" where
  "call_append x arg =
     (case x of
        PList xs \<Rightarrow> (case arg of Inl e \<Rightarrow> Inl e | Inr v \<Rightarrow> Inr (PList (xs @ [v])))
      | _ \<Rightarrow> Inl AttributeError)"

text \<open>Truth value of an object in \<open>if x:\<close>.\<close>

definition py_truthy :: "pyval \<Rightarrow> bool" where
  "py_truthy x =
     (case x of
        PNone \<Rightarrow> False
      | PBool b \<Rightarrow> b
      | PInt i \<Rightarrow> i \<noteq> 0
      | PFloat r \<Rightarrow> r \<noteq> 0
      | PStr s \<Rightarrow> s \<noteq> []
      | PList xs \<Rightarrow> xs \<noteq> []
      | PTuple xs \<Rightarrow> xs \<noteq> []
      | PDict kvs \<Rightarrow> kvs \<noteq> []
      | PObj n \<Rightarrow> True
      | PUnpicklable e \<Rightarrow> True)"

section \<open>Tables\<close>

text \<open>
  A calendar date is year, month, day, compared as Python's \<open>datetime.date\<close> is; a
  timestamp is a date and the seconds since midnight. A column of a table is either a
  column of timestamps (the only kind with the \<open>.dt\<close> accessor) or a column of other
  values. A table has row labels (its index) and named columns.
\<close>

datatype date = Date int nat nat

fun date_lt :: "date \<Rightarrow> date \<Rightarrow> bool" where
  "date_lt (Date y1 m1 d1) (Date y2 m2 d2) =
     (y1 < y2 \<or> (y1 = y2 \<and> (m1 < m2 \<or> (m1 = m2 \<and> d1 < d2))))"

datatype timestamp = Timestamp date nat

fun dt_date :: "timestamp \<Rightarrow> date" where
  "dt_date (Timestamp d s) = d"

fun dt_month :: "timestamp \<Rightarrow> nat" where
  "dt_month (Timestamp (Date y m d) s) = m"

datatype series = DatetimeSeries "timestamp list" | ObjectSeries "pyval list"

record dataframe =
  df_index :: "int list"
  df_columns :: "(string \<times> series) list"

text \<open>\<open>df[col]\<close>, \<open>series.dt\<close>, \<open>df[mask].index\<close>, \<open>index[-1]\<close>, \<open>df.shape[0]\<close>,
  \<open>df.reset_index(drop=True)\<close>.\<close>

definition df_getitem :: "dataframe \<Rightarrow> string \<Rightarrow> py_error + series" where
  "df_getitem df col =
     (case map_of (df_columns df) col of None \<Rightarrow> Inl (KeyError col) | Some s \<Rightarrow> Inr s)"

definition dt_accessor :: "series \<Rightarrow> py_error + timestamp list" where
  "dt_accessor s = (case s of DatetimeSeries ts \<Rightarrow> Inr ts | ObjectSeries vs \<Rightarrow> Inl AttributeError)"

definition index_where :: "dataframe \<Rightarrow> bool list \<Rightarrow> int list" where
  "index_where df keep = map fst (filter snd (zip (df_index df) keep))"

definition index_last :: "int list \<Rightarrow> py_error + int" where
  "index_last idx = (if idx = [] then Inl IndexError else Inr (last idx))"

definition shape0 :: "dataframe \<Rightarrow> nat" where
  "shape0 df = length (df_index df)"

definition reset_index :: "dataframe \<Rightarrow> dataframe" where
  "reset_index df = df\<lparr>df_index := map int [0..<length (df_index df)]\<rparr>"

text \<open>
  The expression \<open>df[df[col].dt.date < split_date].index[-1]\<close>, which \<open>process\<close> and
  \<open>train_test_split_date\<close> both evaluate: the label of the last row whose date is before
  \<open>split_date\<close>.
\<close>

definition i_split_of :: "dataframe \<Rightarrow> string \<Rightarrow> date \<Rightarrow> py_error + int" where
  "i_split_of df col split_date =
     (case df_getitem df col of
        Inl e \<Rightarrow> Inl e
      | Inr s \<Rightarrow>
         (case dt_accessor s of
            Inl e \<Rightarrow> Inl e
          | Inr ts \<Rightarrow> index_last (index_where df (map (\<lambda>t. date_lt (dt_date t) split_date) ts))))"

text \<open>
  The two statements that follow each other in both methods:
  \<open>i_split = df[df[col].dt.date < split_date].index[-1]\<close> and
  \<open>split_ratio = i_split / df.shape[0]\<close> (true division; the quotient is kept exact).
\<close>

definition date_split_ratio :: "dataframe \<Rightarrow> string \<Rightarrow> date \<Rightarrow> py_error + rat" where
  "date_split_ratio df col split_date =
     (case i_split_of df col split_date of
        Inl e \<Rightarrow> Inl e
      | Inr i_split \<Rightarrow> Inr (of_int i_split / of_nat (shape0 df)))"


section \<open>Arrays of windows\<close>

text \<open>
  An array is the list of its entries along the first axis (one entry per window).
  \<open>a[idx]\<close> with an integer index array follows NumPy: a negative index counts from the
  end, an index outside \<open>[-n, n)\<close> raises \<open>IndexError\<close>.
\<close>

fun np_take :: "'a list \<Rightarrow> int list \<Rightarrow> py_error + 'a list" where
  "np_take a [] = Inr []"
| "np_take a (i # idx) =
     (case seq_index a i of
        Inl e \<Rightarrow> Inl e
      | Inr v \<Rightarrow> (case np_take a idx of Inl e \<Rightarrow> Inl e | Inr vs \<Rightarrow> Inr (v # vs)))"

text \<open>The loop \<open>for x in X: out.append(x[idx])\<close>.\<close>

fun np_take_each :: "'a list list \<Rightarrow> int list \<Rightarrow> py_error + 'a list list" where
  "np_take_each [] idx = Inr []"
| "np_take_each (x # X) idx =
     (case np_take x idx of
        Inl e \<Rightarrow> Inl e
      | Inr v \<Rightarrow> (case np_take_each X idx of Inl e \<Rightarrow> Inl e | Inr vs \<Rightarrow> Inr (v # vs)))"

text \<open>\<open>X[0].shape[0]\<close> for a list of arrays.\<close>

definition first_shape0 :: "'a list list \<Rightarrow> py_error + nat" where
  "first_shape0 X = (case X of [] \<Rightarrow> Inl IndexError | x # _ \<Rightarrow> Inr (length x))"

section \<open>The \<open>DataSet\<close> class\<close>

text \<open>
  The attributes of a \<open>DataSet\<close>, with \<open>self.X\<close> and \<open>self.y\<close> named \<open>self_X\<close> and
  \<open>self_y\<close>. \<open>None\<close> in an optional field is Python's \<open>None\<close> (or, for the attributes that
  only \<open>process\<close> creates, an attribute that does not exist yet). The type \<open>'w\<close> is the
  content of one window of an array.
\<close>

record 'w dataset =
  df_raw :: dataframe
  df_processed :: "dataframe option"
  features_input_encoder :: pyval
  features_input_decoder :: pyval
  feature_target :: pyval
  input_seq_len :: pyval
  output_seq_len :: pyval
  temporal_encodings :: pyval
  scaler_X :: pyval
  scaler_y :: pyval
  self_X :: "'w list list option"
  self_y :: "'w list option"
  autoregressive :: pyval
  nan_handler :: pyval
  one_hot_encoder :: pyval
  time_col :: "string option"
  min_rel_occurrence :: "rat option"
  X_encoder :: "'w list option"
  X_decoder :: "'w list option"
  y_last :: "'w list option"
  y_shifted :: "'w list option"

definition DataSet :: "dataframe \<Rightarrow> 'w dataset" where
  "DataSet df =
     \<lparr>df_raw = df, df_processed = None,
      features_input_encoder = PNone, features_input_decoder = PNone,
      feature_target = PNone, input_seq_len = PNone, output_seq_len = PNone,
      temporal_encodings = PList [], scaler_X = PNone, scaler_y = PNone,
      self_X = None, self_y = None, autoregressive = PBool False,
      nan_handler = PNone, one_hot_encoder = PNone,
      time_col = None, min_rel_occurrence = None,
      X_encoder = None, X_decoder = None, y_last = None, y_shifted = None\<rparr>"

text \<open>
  A statement maps the state to the state it leaves and the exception it raised, if any.
  \<open>run\<close> executes statements in order and stops at the first exception, keeping the state as
  the failing statement left it.
\<close>

type_synonym 's stmt = "'s \<Rightarrow> py_error option \<times> 's"

fun run :: "'s stmt list \<Rightarrow> 's stmt" where
  "run [] s = (None, s)"
| "run (st # sts) s = (case st s of (Some e, s') \<Rightarrow> (Some e, s') | (None, s') \<Rightarrow> run sts s')"

subsection \<open>\<open>save_dataset_config\<close> and \<open>load_dataset_config\<close>\<close>

text \<open>
  \<open>save_dataset_config\<close> writes the seven configuration attributes as one JSON document
  and pickles the four transformers, one file each; the first call that raises ends it.
\<close>

definition save_dataset_config :: "string \<Rightarrow> 'w dataset \<Rightarrow> filesystem \<Rightarrow> py_error + filesystem" where
  "save_dataset_config save_path self fs =
     (let config_file_dir = os_path_join save_path ''dataset_config.json'';
          config_dict = PDict
            [(KStr ''features_input_encoder'', features_input_encoder self),
             (KStr ''features_input_decoder'', features_input_decoder self),
             (KStr ''feature_target'', feature_target self),
             (KStr ''temporal_encoding'', temporal_encodings self),
             (KStr ''autoregressive'', autoregressive self),
             (KStr ''input_seq_len'', input_seq_len self),
             (KStr ''output_seq_len'', output_seq_len self)]
      in case json_dump config_dict config_file_dir fs of
           Inl e \<Rightarrow> Inl e
         | Inr fs \<Rightarrow>
      (let nan_handler_dir = os_path_join save_path ''NaNHandler.pkl''
       in case pickle_dump (nan_handler self) nan_handler_dir fs of
            Inl e \<Rightarrow> Inl e
          | Inr fs \<Rightarrow>
      (let ohe_dir = os_path_join save_path ''OneHotEncoder.pkl''
       in case pickle_dump (one_hot_encoder self) ohe_dir fs of
            Inl e \<Rightarrow> Inl e
          | Inr fs \<Rightarrow>
      (let scaler_X_dir = os_path_join save_path ''scaler_X.pkl''
       in case pickle_dump (scaler_X self) scaler_X_dir fs of
            Inl e \<Rightarrow> Inl e
          | Inr fs \<Rightarrow>
      (let scaler_y_dir = os_path_join save_path ''scaler_y.pkl''
       in pickle_dump (scaler_y self) scaler_y_dir fs)))))"

text \<open>The statements \<open>self.attr = config_dict[key]\<close> and
  \<open>with open(path, "rb") as f: self.attr = pickle.load(f)\<close>.\<close>

definition assign_item :: "pyval \<Rightarrow> string \<Rightarrow> (pyval \<Rightarrow> 's \<Rightarrow> 's) \<Rightarrow> 's stmt" where
  "assign_item config_dict key setattr self =
     (case py_getitem_str config_dict key of
        Inl e \<Rightarrow> (Some e, self)
      | Inr v \<Rightarrow> (None, setattr v self))"

definition assign_pickle :: "filesystem \<Rightarrow> string \<Rightarrow> (pyval \<Rightarrow> 's \<Rightarrow> 's) \<Rightarrow> 's stmt" where
  "assign_pickle fs path setattr self =
     (case pickle_load fs path of
        Inl e \<Rightarrow> (Some e, self)
      | Inr v \<Rightarrow> (None, setattr v self))"

definition load_dataset_config :: "filesystem \<Rightarrow> string \<Rightarrow> 'w dataset stmt" where
  "load_dataset_config fs load_path self =
     (let config_file_dir = os_path_join load_path ''dataset_config.json''
      in case json_load fs config_file_dir of
           Inl e \<Rightarrow> (Some e, self)
         | Inr config_dict \<Rightarrow>
            (let nan_handler_dir = os_path_join load_path ''NaNHandler.pkl'';
                 ohe_dir = os_path_join load_path ''OneHotEncoder.pkl'';
                 scaler_X_dir = os_path_join load_path ''scaler_X.pkl'';
                 scaler_y_dir = os_path_join load_path ''scaler_y.pkl''
             in run
               [assign_item config_dict ''features_input_encoder''
                  (\<lambda>v s. s\<lparr>features_input_encoder := v\<rparr>),
                assign_item config_dict ''features_input_decoder''
                  (\<lambda>v s. s\<lparr>features_input_decoder := v\<rparr>),
                assign_item config_dict ''feature_target'' (\<lambda>v s. s\<lparr>feature_target := v\<rparr>),
                assign_item config_dict ''temporal_encoding''
                  (\<lambda>v s. s\<lparr>temporal_encodings := v\<rparr>),
                assign_item config_dict ''autoregressive'' (\<lambda>v s. s\<lparr>autoregressive := v\<rparr>),
                assign_item config_dict ''input_seq_len'' (\<lambda>v s. s\<lparr>input_seq_len := v\<rparr>),
                assign_item config_dict ''output_seq_len'' (\<lambda>v s. s\<lparr>output_seq_len := v\<rparr>),
                assign_pickle fs nan_handler_dir (\<lambda>v s. s\<lparr>nan_handler := v\<rparr>),
                assign_pickle fs ohe_dir (\<lambda>v s. s\<lparr>one_hot_encoder := v\<rparr>),
                assign_pickle fs scaler_X_dir (\<lambda>v s. s\<lparr>scaler_X := v\<rparr>),
                assign_pickle fs scaler_y_dir (\<lambda>v s. s\<lparr>scaler_y := v\<rparr>)]
               self))"


subsection \<open>Collaborators\<close>

text \<open>
  \<^verbatim>\<open>dataset.py\<close> calls functions of the modules \<open>preprocessing\<close>, \<open>utils.scaling\<close> and
  \<open>gen_sequences\<close>, whose sources are not part of the development. They are parameters of
  the model: a record of functions, each returning its result or the exception it raises.
  An optional argument is \<open>None\<close> when the call does not pass it. A call that changes a table
  or a transformer in place returns the object as the call leaves it; \<open>fit\<close> is taken to
  change the transformer only.

  \<^item> \<open>add_temporal_encoding df time_col split_ratio feature mode encoding\<close>
  \<^item> \<open>NaNHandler min_rel_non_nan\<close>, \<open>OneHotEncoder min_rel_occurrence\<close>: the constructors
  \<^item> \<open>NaNHandler_fit handler df\<close>, \<open>NaNHandler_transform handler df inplace\<close>, and the same
    for the one-hot encoder
  \<^item> \<open>scale_input_data df encoder_features decoder_features target train_ratio scaler\<close>
  \<^item> \<open>scale_target_data df features train_ratio scaler\<close>
  \<^item> \<open>extract_sequences_encoder_decoder df encoder_features decoder_features target
    input_seq_len output_seq_len downsampling_ratio_encoder downsampling_ratio_decoder\<close>,
    returning the tuple of arrays
  \<^item> \<open>gen_sequences_train_test_split X y split_ratio\<close>
\<close>

record 'w collaborators =
  add_temporal_encoding ::
    "dataframe option \<Rightarrow> string option \<Rightarrow> rat option \<Rightarrow> pyval option \<Rightarrow> pyval \<Rightarrow> pyval option
      \<Rightarrow> py_error + dataframe \<times> pyval"
  NaNHandler :: "rat option \<Rightarrow> pyval"
  NaNHandler_fit :: "pyval \<Rightarrow> dataframe option \<Rightarrow> py_error + pyval"
  NaNHandler_transform :: "pyval \<Rightarrow> dataframe option \<Rightarrow> bool option \<Rightarrow> py_error + dataframe option"
  OneHotEncoder :: "rat option \<Rightarrow> pyval"
  OneHotEncoder_fit :: "pyval \<Rightarrow> dataframe option \<Rightarrow> py_error + pyval"
  OneHotEncoder_transform :: "pyval \<Rightarrow> dataframe option \<Rightarrow> bool option \<Rightarrow> py_error + dataframe option"
  scale_input_data ::
    "dataframe option \<Rightarrow> pyval \<Rightarrow> pyval \<Rightarrow> pyval \<Rightarrow> rat option \<Rightarrow> pyval option
      \<Rightarrow> py_error + dataframe \<times> pyval"
  scale_target_data ::
    "dataframe option \<Rightarrow> pyval \<Rightarrow> rat option \<Rightarrow> pyval option \<Rightarrow> py_error + dataframe \<times> pyval"
  extract_sequences_encoder_decoder ::
    "dataframe option \<Rightarrow> pyval \<Rightarrow> pyval \<Rightarrow> pyval \<Rightarrow> pyval \<Rightarrow> pyval \<Rightarrow> int \<Rightarrow> int
      \<Rightarrow> py_error + 'w list list"
  gen_sequences_train_test_split ::
    "'w list list option \<Rightarrow> 'w list option \<Rightarrow> rat
      \<Rightarrow> py_error + 'w list list \<times> 'w list \<times> 'w list list \<times> 'w list"

text \<open>Unpacking a returned tuple into five or four names raises \<open>ValueError\<close> when the
  tuple has another length.\<close>

fun unpack5 :: "'a list \<Rightarrow> py_error + 'a \<times> 'a \<times> 'a \<times> 'a \<times> 'a" where
  "unpack5 [a, b, c, d, e] = Inr (a, b, c, d, e)"
| "unpack5 _ = Inl ValueError"

fun unpack4 :: "'a list \<Rightarrow> py_error + 'a \<times> 'a \<times> 'a \<times> 'a" where
  "unpack4 [a, b, c, d] = Inr (a, b, c, d)"
| "unpack4 _ = Inl ValueError"

text \<open>\<open>self.df_processed = self.df_processed.reset_index(drop=True)\<close>.\<close>

definition reset_index_stmt :: "'w dataset stmt" where
  "reset_index_stmt self =
     (case df_processed self of
        None \<Rightarrow> (Some AttributeError, self)
      | Some df \<Rightarrow> (None, self\<lparr>df_processed := Some (reset_index df)\<rparr>))"

subsection \<open>\<open>process\<close>\<close>

text \<open>Lines 131 to 135: the split ratio from the split date, which replaces the argument
  \<open>split_ratio\<close>. The column name is the literal \<open>"date / time"\<close>.\<close>

definition process_split_ratio :: "'w dataset \<Rightarrow> rat option \<Rightarrow> date option \<Rightarrow> py_error + rat option" where
  "process_split_ratio self split_ratio split_date =
     (case split_date of
        None \<Rightarrow> Inr split_ratio
      | Some d \<Rightarrow>
         (case df_processed self of
            None \<Rightarrow> Inl TypeError
          | Some df \<Rightarrow>
             (case date_split_ratio df ''date / time'' d of
                Inl e \<Rightarrow> Inl e
              | Inr r \<Rightarrow> Inr (Some r))))"

text \<open>Lines 140 to 156: the loop over the temporal encoding modes. The feature lists are
  local variables; the loop extends them and appends to \<open>self.temporal_encodings\<close>.\<close>

fun process_temporal ::
  "'w collaborators \<Rightarrow> rat option \<Rightarrow> string \<Rightarrow> string list \<Rightarrow> string list \<times> string list \<Rightarrow> 'w dataset
    \<Rightarrow> py_error option \<times> (string list \<times> string list) \<times> 'w dataset"
where
  "process_temporal c split_ratio feature_target' [] feats self = (None, feats, self)"
| "process_temporal c split_ratio feature_target' (temp_enc # rest) (fie, fid) self =
     (case add_temporal_encoding c (df_processed self) (time_col self) split_ratio
             (Some (PStr feature_target')) (PStr temp_enc) None of
        Inl e \<Rightarrow> (Some e, (fie, fid), self)
      | Inr (df, temporal_encoding) \<Rightarrow>
         (let self = self\<lparr>df_processed := Some df\<rparr>;
              fie = fie @ [''temporal_encoding_'' @ temp_enc];
              fid = fid @ [''temporal_encoding_'' @ temp_enc]
          in case call_append (temporal_encodings self)
                    (Inr (PTuple [PStr temp_enc, temporal_encoding])) of
               Inl e \<Rightarrow> (Some e, (fie, fid), self)
             | Inr te \<Rightarrow>
                process_temporal c split_ratio feature_target' rest (fie, fid)
                  (self\<lparr>temporal_encodings := te\<rparr>)))"

text \<open>Lines 157 to 182: fit and apply the NaN handler and the one-hot encoder, scale,
  reset the index.\<close>

definition process_transform ::
  "'w collaborators \<Rightarrow> rat option \<Rightarrow> rat option \<Rightarrow> rat option \<Rightarrow> string list \<Rightarrow> string list \<Rightarrow> string
    \<Rightarrow> 'w dataset stmt"
where
  "process_transform c split_ratio min_rel_occurrence' min_rel_non_nan fie fid feature_target' =
     run
       [\<lambda>self. (None, self\<lparr>nan_handler := NaNHandler c min_rel_non_nan\<rparr>),
        \<lambda>self. (case NaNHandler_fit c (nan_handler self) (df_processed self) of
                  Inl e \<Rightarrow> (Some e, self)
                | Inr h \<Rightarrow> (None, self\<lparr>nan_handler := h\<rparr>)),
        \<lambda>self. (case NaNHandler_transform c (nan_handler self) (df_processed self) (Some True) of
                  Inl e \<Rightarrow> (Some e, self)
                | Inr df \<Rightarrow> (None, self\<lparr>df_processed := df\<rparr>)),
        \<lambda>self. (None, self\<lparr>one_hot_encoder := OneHotEncoder c min_rel_occurrence'\<rparr>),
        \<lambda>self. (case OneHotEncoder_fit c (one_hot_encoder self) (df_processed self) of
                  Inl e \<Rightarrow> (Some e, self)
                | Inr h \<Rightarrow> (None, self\<lparr>one_hot_encoder := h\<rparr>)),
        \<lambda>self. (case OneHotEncoder_transform c (one_hot_encoder self) (df_processed self)
                        (Some True) of
                  Inl e \<Rightarrow> (Some e, self)
                | Inr df \<Rightarrow> (None, self\<lparr>df_processed := df\<rparr>)),
        \<lambda>self. (case scale_input_data c (df_processed self) (PList (map PStr fie))
                        (PList (map PStr fid)) (PStr feature_target') split_ratio None of
                  Inl e \<Rightarrow> (Some e, self)
                | Inr (df, sc) \<Rightarrow> (None, self\<lparr>df_processed := Some df, scaler_X := sc\<rparr>)),
        \<lambda>self. (case scale_target_data c (df_processed self) (PList [PStr feature_target'])
                        split_ratio None of
                  Inl e \<Rightarrow> (Some e, self)
                | Inr (df, sc) \<Rightarrow> (None, self\<lparr>df_processed := Some df, scaler_y := sc\<rparr>)),
        reset_index_stmt]"

text \<open>Lines 184 to 207: extract the sequences and store them. \<open>self.X\<close> is assigned twice;
  the assignment under the commented-out test of the flag is the one that stays.\<close>

definition process_sequences ::
  "'w collaborators \<Rightarrow> string list \<Rightarrow> string list \<Rightarrow> string \<Rightarrow> int \<Rightarrow> int \<Rightarrow> 'w dataset stmt"
where
  "process_sequences c fie fid feature_target' input_seq_len' output_seq_len' self =
     (case extract_sequences_encoder_decoder c (df_processed self) (PList (map PStr fie))
             (PList (map PStr fid)) (PStr feature_target') (PInt input_seq_len')
             (PInt output_seq_len') 1 1 of
        Inl e \<Rightarrow> (Some e, self)
      | Inr res \<Rightarrow>
         (case unpack5 res of
            Inl e \<Rightarrow> (Some e, self)
          | Inr (X_encoder', X_decoder', y', y_shifted', y_last') \<Rightarrow>
             (let self = self\<lparr>self_X := Some [X_encoder', X_decoder', y_last', y_shifted']\<rparr>;
                  self = self\<lparr>X_encoder := Some X_encoder'\<rparr>;
                  self = self\<lparr>X_decoder := Some X_decoder'\<rparr>;
                  self = self\<lparr>y_last := Some y_last'\<rparr>;
                  self = self\<lparr>y_shifted := Some y_shifted'\<rparr>;
                  self = self\<lparr>self_X := Some [X_encoder', X_decoder', y_shifted', y_last']\<rparr>;
                  self = self\<lparr>self_y := Some y'\<rparr>
              in (None, self))))"

text \<open>Lines 130 to 207: everything \<open>process\<close> does after it has stored its arguments.\<close>

definition process_steps ::
  "'w collaborators \<Rightarrow> string list \<Rightarrow> string list \<Rightarrow> string \<Rightarrow> int \<Rightarrow> int \<Rightarrow> rat option
    \<Rightarrow> date option \<Rightarrow> string list option \<Rightarrow> rat option \<Rightarrow> rat option \<Rightarrow> 'w dataset stmt"
where
  "process_steps c features_input_encoder' features_input_decoder' feature_target'
     input_seq_len' output_seq_len' split_ratio split_date temporal_encoding_modes
     min_rel_occurrence' min_rel_non_nan self =
     (case process_split_ratio self split_ratio split_date of
        Inl e \<Rightarrow> (Some e, self)
      | Inr split_ratio \<Rightarrow>
         (let temporal_encoding_modes =
                (case temporal_encoding_modes of None \<Rightarrow> [] | Some ms \<Rightarrow> ms)
          in case process_temporal c split_ratio feature_target' temporal_encoding_modes
                    (features_input_encoder', features_input_decoder') self of
               (Some e, feats, self) \<Rightarrow> (Some e, self)
             | (None, (fie, fid), self) \<Rightarrow>
                run
                  [process_transform c split_ratio min_rel_occurrence' min_rel_non_nan
                     fie fid feature_target',
                   process_sequences c fie fid feature_target' input_seq_len'
                     output_seq_len']
                  self))"

text \<open>Lines 117 to 207. The assertion comes first; then the arguments are stored.\<close>

definition process ::
  "'w collaborators \<Rightarrow> string \<Rightarrow> string list \<Rightarrow> string list \<Rightarrow> string \<Rightarrow> int \<Rightarrow> int \<Rightarrow> rat option
    \<Rightarrow> date option \<Rightarrow> string list option \<Rightarrow> rat option \<Rightarrow> rat option \<Rightarrow> bool \<Rightarrow> 'w dataset stmt"
where
  "process c time_col' features_input_encoder' features_input_decoder' feature_target'
     input_seq_len' output_seq_len' split_ratio split_date temporal_encoding_modes
     min_rel_occurrence' min_rel_non_nan autoregressiive self =
     (if split_ratio = None \<and> split_date = None then (Some AssertionError, self)
      else
        (let self = self\<lparr>time_col := Some time_col'\<rparr>;
             self = self\<lparr>df_processed := Some (df_raw self)\<rparr>;
             self = self\<lparr>autoregressive := PBool autoregressiive\<rparr>;
             self = self\<lparr>features_input_encoder := PList (map PStr features_input_encoder')\<rparr>;
             self = self\<lparr>features_input_decoder := PList (map PStr features_input_decoder')\<rparr>;
             self = self\<lparr>feature_target := PStr feature_target'\<rparr>;
             self = self\<lparr>input_seq_len := PInt input_seq_len'\<rparr>;
             self = self\<lparr>output_seq_len := PInt output_seq_len'\<rparr>;
             self = self\<lparr>min_rel_occurrence := min_rel_occurrence'\<rparr>
         in process_steps c features_input_encoder' features_input_decoder' feature_target'
              input_seq_len' output_seq_len' split_ratio split_date temporal_encoding_modes
              min_rel_occurrence' min_rel_non_nan self))"

subsection \<open>\<open>process_from_config\<close>\<close>

text \<open>Lines 244 to 251: the loop over the loaded temporal encodings.\<close>

fun from_config_temporal :: "'w collaborators \<Rightarrow> pyval list \<Rightarrow> 'w dataset stmt" where
  "from_config_temporal c [] self = (None, self)"
| "from_config_temporal c (temp_enc # rest) self =
     (case py_getitem_int temp_enc 0 of
        Inl e \<Rightarrow> (Some e, self)
      | Inr mode \<Rightarrow>
         (case py_getitem_int temp_enc 1 of
            Inl e \<Rightarrow> (Some e, self)
          | Inr encoding \<Rightarrow>
             (case add_temporal_encoding c (df_processed self) None None None mode
                     (Some encoding) of
                Inl e \<Rightarrow> (Some e, self)
              | Inr (df, temporal_encoding) \<Rightarrow>
                 (let self = self\<lparr>df_processed := Some df\<rparr>;
                      name = (case py_getitem_int temp_enc 0 of
                                Inl e \<Rightarrow> Inl e
                              | Inr m \<Rightarrow> py_str_add ''temporal_encoding_'' m)
                  in case call_append (features_input_encoder self) name of
                       Inl e \<Rightarrow> (Some e, self)
                     | Inr fie \<Rightarrow>
                        (let self = self\<lparr>features_input_encoder := fie\<rparr>
                         in case call_append (features_input_decoder self) name of
                              Inl e \<Rightarrow> (Some e, self)
                            | Inr fid \<Rightarrow>
                               from_config_temporal c rest
                                 (self\<lparr>features_input_decoder := fid\<rparr>))))))"

text \<open>Lines 244 to 251 as one statement: the loop runs over the items of
  \<open>self.temporal_encodings\<close>.\<close>

definition from_config_encodings :: "'w collaborators \<Rightarrow> 'w dataset stmt" where
  "from_config_encodings c self =
     (case py_iter (temporal_encodings self) of
        Inl e \<Rightarrow> (Some e, self)
      | Inr items \<Rightarrow> from_config_temporal c items self)"

text \<open>Lines 278 to 294: extract the sequences and store them; the flag decides whether
  \<open>y_last\<close> is stored in \<open>self.X\<close>.\<close>

definition from_config_extract :: "'w collaborators \<Rightarrow> 'w dataset stmt" where
  "from_config_extract c self =
     (case extract_sequences_encoder_decoder c (df_processed self)
             (features_input_encoder self) (features_input_decoder self)
             (feature_target self) (input_seq_len self) (output_seq_len self) 1 1 of
        Inl e \<Rightarrow> (Some e, self)
      | Inr res \<Rightarrow>
         (case unpack4 res of
            Inl e \<Rightarrow> (Some e, self)
          | Inr (X_encoder', X_decoder', y', y_last') \<Rightarrow>
             (let self =
                    (if py_truthy (autoregressive self)
                     then self\<lparr>self_X := Some [X_encoder', X_decoder', y_last']\<rparr>
                     else self\<lparr>self_X := Some [X_encoder', X_decoder']\<rparr>)
              in (None, self\<lparr>self_y := Some y'\<rparr>))))"

text \<open>Lines 253 to 294: apply the loaded transformers, reset the index, extract the
  sequences.\<close>

definition from_config_sequences :: "'w collaborators \<Rightarrow> 'w dataset stmt list" where
  "from_config_sequences c =
       [\<lambda>self. (case NaNHandler_transform c (nan_handler self) (df_processed self) None of
                  Inl e \<Rightarrow> (Some e, self)
                | Inr df \<Rightarrow> (None, self\<lparr>df_processed := df\<rparr>)),
        \<lambda>self. (case OneHotEncoder_transform c (one_hot_encoder self) (df_processed self) None of
                  Inl e \<Rightarrow> (Some e, self)
                | Inr df \<Rightarrow> (None, self\<lparr>df_processed := df\<rparr>)),
        \<lambda>self. (case scale_input_data c (df_processed self) (features_input_encoder self)
                        (features_input_decoder self) (feature_target self) None
                        (Some (scaler_X self)) of
                  Inl e \<Rightarrow> (Some e, self)
                | Inr (df, sc) \<Rightarrow> (None, self\<lparr>df_processed := Some df\<rparr>)),
        \<lambda>self. (case scale_target_data c (df_processed self) (PList [feature_target self])
                        None (Some (scaler_y self)) of
                  Inl e \<Rightarrow> (Some e, self)
                | Inr (df, sc) \<Rightarrow> (None, self\<lparr>df_processed := Some df\<rparr>)),
        reset_index_stmt,
        from_config_extract c]"

text \<open>Lines 242 to 294: everything \<open>process_from_config\<close> does after loading the
  configuration.\<close>

definition from_config_transform :: "'w collaborators \<Rightarrow> 'w dataset stmt" where
  "from_config_transform c = run (from_config_encodings c # from_config_sequences c)"

definition process_from_config ::
  "'w collaborators \<Rightarrow> filesystem \<Rightarrow> string \<Rightarrow> int option \<Rightarrow> int option \<Rightarrow> 'w dataset stmt"
where
  "process_from_config c fs config_path input_seq_len' output_seq_len' =
     run
       [\<lambda>self. (None, case input_seq_len' of
                         None \<Rightarrow> self
                       | Some n \<Rightarrow> self\<lparr>input_seq_len := PInt n\<rparr>),
        \<lambda>self. (None, case output_seq_len' of
                         None \<Rightarrow> self
                       | Some n \<Rightarrow> self\<lparr>output_seq_len := PInt n\<rparr>),
        load_dataset_config fs config_path,
        from_config_transform c]"

subsection \<open>The splits\<close>

text \<open>Python's \<open>round\<close> on a number: to the nearest integer, a tie to the even one.\<close>

definition py_round :: "rat \<Rightarrow> int" where
  "py_round q =
     (let f = \<lfloor>q\<rfloor>; d = q - of_int f
      in if d < 1 / 2 then f else if 1 / 2 < d then f + 1 else if even f then f else f + 1)"

text \<open>
  Modelled from the spec: \<open>gen_sequences.train_test_split\<close>, whose source is not part of
  the development. Section 4.2: the first \<open>round(split_ratio * window_count)\<close> windows go to
  train, the remainder to test, in order. The window count is the length of the first
  array of \<open>X\<close>.
\<close>

definition train_test_split_spec ::
  "'w list list option \<Rightarrow> 'w list option \<Rightarrow> rat
    \<Rightarrow> py_error + 'w list list \<times> 'w list \<times> 'w list list \<times> 'w list"
where
  "train_test_split_spec X y split_ratio =
     (case X of
        None \<Rightarrow> Inl TypeError
      | Some Xs \<Rightarrow>
         (case y of
            None \<Rightarrow> Inl TypeError
          | Some ys \<Rightarrow>
             (case first_shape0 Xs of
                Inl e \<Rightarrow> Inl e
              | Inr window_count \<Rightarrow>
                 (let k = nat (py_round (split_ratio * of_nat window_count))
                  in Inr (map (take k) Xs, take k ys, map (drop k) Xs, drop k ys)))))"

text \<open>The method \<open>train_test_split\<close> of the class.\<close>

definition train_test_split ::
  "'w collaborators \<Rightarrow> rat \<Rightarrow> 'w dataset
    \<Rightarrow> py_error + 'w list list \<times> 'w list \<times> 'w list list \<times> 'w list"
where
  "train_test_split c split_ratio self =
     gen_sequences_train_test_split c (self_X self) (self_y self) split_ratio"

text \<open>
  Lines 427 to 435: the row labels whose month is among \<open>considered_months\<close>, cut to the
  number of windows, and from them the index arrays \<open>i_train\<close> and \<open>i_test\<close>.
\<close>

definition month_indices ::
  "dataframe \<Rightarrow> string \<Rightarrow> nat list \<Rightarrow> 'w list list \<Rightarrow> 'w list list
    \<Rightarrow> py_error + int list \<times> int list"
where
  "month_indices df date_col considered_months X_train X_test =
     (case df_getitem df date_col of
        Inl e \<Rightarrow> Inl e
      | Inr s \<Rightarrow>
     (case dt_accessor s of
        Inl e \<Rightarrow> Inl e
      | Inr ts \<Rightarrow>
     (let i_months = index_where df (map (\<lambda>t. dt_month t \<in> set considered_months) ts)
      in
     (case first_shape0 X_train of
        Inl e \<Rightarrow> Inl e
      | Inr n_train \<Rightarrow>
     (case first_shape0 X_test of
        Inl e \<Rightarrow> Inl e
      | Inr n_test \<Rightarrow>
     (let i_months = filter (\<lambda>i. i < int n_train + int n_test) i_months;
          i_train = filter (\<lambda>i. i < int n_train) i_months
      in
     (case index_last i_train of
        Inl e \<Rightarrow> Inl e
      | Inr last_train \<Rightarrow>
         Inr (i_train,
              map (\<lambda>i. i - int n_train) (filter (\<lambda>i. last_train \<le> i) i_months)))))))))"

text \<open>
  Lines 427 to 446: the month filter, applied to the four parts that the split returned.
\<close>

definition month_filter ::
  "dataframe \<Rightarrow> string \<Rightarrow> nat list \<Rightarrow> 'w list list \<times> 'w list \<times> 'w list list \<times> 'w list
    \<Rightarrow> py_error + 'w list list \<times> 'w list \<times> 'w list list \<times> 'w list"
where
  "month_filter df date_col considered_months parts =
     (case parts of (X_train, y_train, X_test, y_test) \<Rightarrow>
      (case month_indices df date_col considered_months X_train X_test of
         Inl e \<Rightarrow> Inl e
       | Inr (i_train, i_test) \<Rightarrow>
      (case np_take y_train i_train of
         Inl e \<Rightarrow> Inl e
       | Inr y_train_months \<Rightarrow>
      (case np_take y_test i_test of
         Inl e \<Rightarrow> Inl e
       | Inr y_test_months \<Rightarrow>
      (case np_take_each X_train i_train of
         Inl e \<Rightarrow> Inl e
       | Inr X_train_months \<Rightarrow>
      (case np_take_each X_test i_test of
         Inl e \<Rightarrow> Inl e
       | Inr X_test_months \<Rightarrow>
          Inr (X_train_months, y_train_months, X_test_months, y_test_months)))))))"

definition train_test_split_date ::
  "'w collaborators \<Rightarrow> string \<Rightarrow> date \<Rightarrow> nat list option \<Rightarrow> 'w dataset
    \<Rightarrow> py_error + 'w list list \<times> 'w list \<times> 'w list list \<times> 'w list"
where
  "train_test_split_date c date_col split_date considered_months self =
     (let considered_months =
            (case considered_months of None \<Rightarrow> [1..<13] | Some ms \<Rightarrow> ms)
      in case df_processed self of
           None \<Rightarrow> Inl TypeError
         | Some df \<Rightarrow>
            (case date_split_ratio df date_col split_date of
               Inl e \<Rightarrow> Inl e
             | Inr split_ratio \<Rightarrow>
                (case gen_sequences_train_test_split c (self_X self) (self_y self)
                        split_ratio of
                   Inl e \<Rightarrow> Inl e
                 | Inr parts \<Rightarrow> month_filter df date_col considered_months parts)))"

section \<open>Example tables, collaborators and data sets\<close>

text \<open>
  Concrete inputs on which the theorems below are instantiated. \<open>daily_table col start n\<close>
  has \<open>n\<close> rows, one per day, in a calendar of 28-day months starting with day \<open>start\<close>;
  its index is \<open>0, \<dots>, n - 1\<close> and its timestamps are in the column \<open>col\<close>. The example
  collaborators leave tables unchanged; a temporal encoding or a scaler that is fitted
  records the ratio it was fitted with (\<open>fitted_with\<close>), one that is given is returned as it
  is; the example extractor returns \<open>arity\<close> arrays that each hold the start rows
  \<open>0, \<dots>, N - Li - Lo\<close> of the windows (section 4.1 of the specification), and the example
  split is \<open>train_test_split_spec\<close>.
\<close>


definition daily_stamp :: "nat \<Rightarrow> timestamp" where
  "daily_stamp i = Timestamp (Date 2020 (1 + i div 28) (1 + i mod 28)) 0"

definition daily_table :: "string \<Rightarrow> nat \<Rightarrow> nat \<Rightarrow> dataframe" where
  "daily_table col start n =
     \<lparr>df_index = map int [0..<n],
      df_columns = [(col, DatetimeSeries (map daily_stamp [start..<start + n]))]\<rparr>"

definition example_extract ::
  "nat \<Rightarrow> dataframe option \<Rightarrow> pyval \<Rightarrow> pyval \<Rightarrow> pyval \<Rightarrow> pyval \<Rightarrow> pyval \<Rightarrow> int \<Rightarrow> int
    \<Rightarrow> py_error + nat list list"
where
  "example_extract arity df fie fid ft len_in len_out dse dsd =
     (case df of
        None \<Rightarrow> Inl TypeError
      | Some d \<Rightarrow>
         (case len_in of
            PInt li \<Rightarrow>
              (case len_out of
                 PInt lo \<Rightarrow> Inr (replicate arity [0..<nat (int (shape0 d) - li - lo + 1)])
               | _ \<Rightarrow> Inl TypeError)
          | _ \<Rightarrow> Inl TypeError))"

definition fitted_with :: "rat option \<Rightarrow> pyval" where
  "fitted_with ratio =
     PDict [(KStr ''train_ratio'', case ratio of None \<Rightarrow> PNone | Some r \<Rightarrow> PFloat r)]"

definition example_collaborators :: "nat \<Rightarrow> nat collaborators" where
  "example_collaborators arity =
     \<lparr>add_temporal_encoding =
        (\<lambda>df tc sr feature mode encoding.
           case df of
             None \<Rightarrow> Inl AttributeError
           | Some d \<Rightarrow> Inr (d, case encoding of None \<Rightarrow> fitted_with sr | Some e \<Rightarrow> e)),
      NaNHandler = (\<lambda>m. PObj 1),
      NaNHandler_fit = (\<lambda>h df. Inr h),
      NaNHandler_transform = (\<lambda>h df inplace. Inr df),
      OneHotEncoder = (\<lambda>m. PObj 2),
      OneHotEncoder_fit = (\<lambda>h df. Inr h),
      OneHotEncoder_transform = (\<lambda>h df inplace. Inr df),
      scale_input_data =
        (\<lambda>df fie fid ft tr sc.
           case df of
             None \<Rightarrow> Inl AttributeError
           | Some d \<Rightarrow> Inr (d, case sc of None \<Rightarrow> fitted_with tr | Some s \<Rightarrow> s)),
      scale_target_data =
        (\<lambda>df fs tr sc.
           case df of
             None \<Rightarrow> Inl AttributeError
           | Some d \<Rightarrow> Inr (d, case sc of None \<Rightarrow> fitted_with tr | Some s \<Rightarrow> s)),
      extract_sequences_encoder_decoder = example_extract arity,
      gen_sequences_train_test_split = train_test_split_spec\<rparr>"

definition windowed_dataset :: "dataframe \<Rightarrow> nat \<Rightarrow> nat dataset" where
  "windowed_dataset df window_count =
     (DataSet df)
       \<lparr>df_processed := Some df,
        self_X := Some (replicate 4 [0..<window_count]),
        self_y := Some [0..<window_count]\<rparr>"

text \<open>Ten rows from day 25 of month 1 to day 6 of month 2, with eight windows.\<close>

definition winter_table :: dataframe where
  "winter_table = daily_table ''date / time'' 24 10"

definition winter_dataset :: "nat dataset" where
  "winter_dataset = windowed_dataset winter_table 8"

text \<open>A hundred daily rows.\<close>

definition hundred_days :: dataframe where
  "hundred_days = daily_table ''date / time'' 0 100"

text \<open>Ten daily rows whose timestamps are in a column named \<open>"timestamp"\<close>.\<close>

definition stamped_table :: dataframe where
  "stamped_table = daily_table ''timestamp'' 0 10"

text \<open>
  A file system with the one directory \<open>"cfg"\<close> and no file. A fitted data set: what
  \<open>process\<close> leaves of a fresh \<open>DataSet\<close> on the ten-row table, with one temporal encoding,
  window lengths 3 and 2 and split ratio \<open>1 / 2\<close>. The JSON image of its configuration (what
  \<open>json.load\<close> returns for the document that \<open>json.dump\<close> wrote: the tuple has become a list),
  the state of a fresh \<open>DataSet\<close> after the seven configuration attributes have been
  assigned from it, and the file system after \<open>save_dataset_config\<close> has written the fitted
  data set into \<open>"cfg"\<close>.
\<close>

definition empty_disk :: filesystem where
  "empty_disk = \<lparr>fs_dirs = [''cfg''], fs_files = Map.empty\<rparr>"

definition fitted_dataset :: "nat dataset" where
  "fitted_dataset =
     snd (process (example_collaborators 5) ''date / time'' [''temperature'', ''load'']
            [''temperature''] ''load'' 3 2 (Some (1 / 2)) None (Some [''hours'']) None None True
            (DataSet winter_table))"

definition fitted_config_dict :: pyval where
  "fitted_config_dict =
     PDict
       [(KStr ''features_input_encoder'', PList [PStr ''temperature'', PStr ''load'']),
        (KStr ''features_input_decoder'', PList [PStr ''temperature'']),
        (KStr ''feature_target'', PStr ''load''),
        (KStr ''temporal_encoding'',
           PList [PList [PStr ''hours'', PDict [(KStr ''train_ratio'', PFloat (1 / 2))]]]),
        (KStr ''autoregressive'', PBool True),
        (KStr ''input_seq_len'', PInt 3),
        (KStr ''output_seq_len'', PInt 2)]"

definition loaded_config :: "nat dataset" where
  "loaded_config =
     (DataSet winter_table)
       \<lparr>features_input_encoder := PList [PStr ''temperature'', PStr ''load''],
        features_input_decoder := PList [PStr ''temperature''],
        feature_target := PStr ''load'',
        temporal_encodings :=
          PList [PList [PStr ''hours'', PDict [(KStr ''train_ratio'', PFloat (1 / 2))]]],
        autoregressive := PBool True,
        input_seq_len := PInt 3,
        output_seq_len := PInt 2\<rparr>"

definition saved_config :: filesystem where
  "saved_config =
     (case save_dataset_config ''cfg'' fitted_dataset empty_disk of
        Inl e \<Rightarrow> empty_disk
      | Inr fs \<Rightarrow> fs)"

text \<open>A data set whose processed table is set, on which the loaded configuration is replayed.\<close>

definition replay_dataset :: "nat dataset" where
  "replay_dataset = (DataSet winter_table)\<lparr>df_processed := Some winter_table\<rparr>"

text \<open>
  The same fitted data set with the autoregressive flag off, and the file system after it
  has been saved into \<open>"cfg"\<close>.
\<close>

definition plain_dataset :: "nat dataset" where
  "plain_dataset =
     snd (process (example_collaborators 5) ''date / time'' [''temperature'', ''load'']
            [''temperature''] ''load'' 3 2 (Some (1 / 2)) None (Some [''hours'']) None None False
            (DataSet winter_table))"

definition saved_plain :: filesystem where
  "saved_plain =
     (case save_dataset_config ''cfg'' plain_dataset empty_disk of
        Inl e \<Rightarrow> empty_disk
      | Inr fs \<Rightarrow> fs)"

text \<open>
  Damaged configurations: a file system with one file removed or replaced; an empty file;
  and a JSON document that holds the first two keys of the configuration only.
\<close>

definition without_file :: "filesystem \<Rightarrow> string \<Rightarrow> filesystem" where
  "without_file fs path = fs\<lparr>fs_files := (fs_files fs)(path := None)\<rparr>"

definition with_file :: "filesystem \<Rightarrow> string \<Rightarrow> file_content \<Rightarrow> filesystem" where
  "with_file fs path f = fs\<lparr>fs_files := (fs_files fs)(path \<mapsto> f)\<rparr>"

definition empty_file :: file_content where
  "empty_file = \<lparr>as_json = Inl JSONDecodeError, as_pickle = Inl EOFError\<rparr>"

definition two_key_document :: file_content where
  "two_key_document =
     \<lparr>as_json = Inr (JObject
         [(''features_input_encoder'', JArray [JString ''temperature'']),
          (''features_input_decoder'', JArray [])]),
      as_pickle = Inl UnpicklingError\<rparr>"

section \<open>Sequences of statements\<close>

lemma run_cons_success:
  assumes "run (st # sts) s = (None, r)"
  obtains s' where "st s = (None, s')" and "run sts s' = (None, r)"
  using assms by (auto split: prod.splits option.splits)

lemma run_append_last:
  "run (sts @ [st]) s = (None, r) \<Longrightarrow> \<exists>s'. st s' = (None, r)"
proof (induction sts arbitrary: s)
  case Nil
  then show ?case by (auto split: prod.splits option.splits)
next
  case (Cons a sts)
  then show ?case by (auto split: prod.splits option.splits)
qed

lemma run_commutes:
  assumes "\<forall>st\<in>set sts. \<forall>s. st (u s) = (case st s of (e, r) \<Rightarrow> (e, u r))"
  shows "run sts (u s) = (case run sts s of (e, r) \<Rightarrow> (e, u r))"
  using assms
proof (induction sts arbitrary: s)
  case Nil
  then show ?case by simp
next
  case (Cons st sts)
  have st: "st (u s) = (case st s of (e, r) \<Rightarrow> (e, u r))"
    using Cons.prems by simp
  have rest: "\<And>s'. run sts (u s') = (case run sts s' of (e, r) \<Rightarrow> (e, u r))"
    using Cons.IH Cons.prems by simp
  show ?case
    by (simp add: st rest split: prod.splits option.splits)
qed

section \<open>What \<open>process\<close> and \<open>process_from_config\<close> store\<close>

lemma unpack5_Inr: "unpack5 res = Inr (a, b, c, d, e) \<Longrightarrow> res = [a, b, c, d, e]"
  by (erule unpack5.elims) simp_all

lemma unpack4_Inr: "unpack4 res = Inr (a, b, c, d) \<Longrightarrow> res = [a, b, c, d]"
  by (erule unpack4.elims) simp_all

lemma process_sequences_stores:
  assumes "process_sequences c fie fid ft li lo s = (None, r)"
  shows "\<exists>Xe Xd y ysh yl.
      extract_sequences_encoder_decoder c (df_processed s) (PList (map PStr fie))
        (PList (map PStr fid)) (PStr ft) (PInt li) (PInt lo) 1 1 = Inr [Xe, Xd, y, ysh, yl]
      \<and> r = s\<lparr>X_encoder := Some Xe, X_decoder := Some Xd, y_last := Some yl,
              y_shifted := Some ysh, self_X := Some [Xe, Xd, ysh, yl], self_y := Some y\<rparr>"
proof -
  from assms obtain res where
    res: "extract_sequences_encoder_decoder c (df_processed s) (PList (map PStr fie))
             (PList (map PStr fid)) (PStr ft) (PInt li) (PInt lo) 1 1 = Inr res"
    by (cases "extract_sequences_encoder_decoder c (df_processed s) (PList (map PStr fie))
             (PList (map PStr fid)) (PStr ft) (PInt li) (PInt lo) 1 1")
      (simp_all add: process_sequences_def)
  from assms res obtain Xe Xd y ysh yl where u: "unpack5 res = Inr (Xe, Xd, y, ysh, yl)"
    by (cases "unpack5 res") (auto simp: process_sequences_def)
  from assms res u have "r = s\<lparr>X_encoder := Some Xe, X_decoder := Some Xd, y_last := Some yl,
      y_shifted := Some ysh, self_X := Some [Xe, Xd, ysh, yl], self_y := Some y\<rparr>"
    by (simp add: process_sequences_def Let_def)
  then show ?thesis using res unpack5_Inr [OF u] by blast
qed

lemma from_config_extract_stores:
  assumes "from_config_extract c s = (None, r)"
  shows "\<exists>Xe Xd y yl.
      extract_sequences_encoder_decoder c (df_processed s) (features_input_encoder s)
        (features_input_decoder s) (feature_target s) (input_seq_len s) (output_seq_len s) 1 1
        = Inr [Xe, Xd, y, yl]
      \<and> r = s\<lparr>self_X := Some (if py_truthy (autoregressive s) then [Xe, Xd, yl] else [Xe, Xd]),
              self_y := Some y\<rparr>"
proof -
  from assms obtain res where
    res: "extract_sequences_encoder_decoder c (df_processed s)
             (features_input_encoder s) (features_input_decoder s)
             (feature_target s) (input_seq_len s) (output_seq_len s) 1 1 = Inr res"
    by (cases "extract_sequences_encoder_decoder c (df_processed s)
             (features_input_encoder s) (features_input_decoder s)
             (feature_target s) (input_seq_len s) (output_seq_len s) 1 1")
      (simp_all add: from_config_extract_def)
  from assms res obtain Xe Xd y yl where u: "unpack4 res = Inr (Xe, Xd, y, yl)"
    by (cases "unpack4 res") (auto simp: from_config_extract_def)
  from assms res u have "r = s\<lparr>self_X := Some (if py_truthy (autoregressive s)
       then [Xe, Xd, yl] else [Xe, Xd]), self_y := Some y\<rparr>"
    by (simp add: from_config_extract_def Let_def split: if_splits)
  then show ?thesis using res unpack4_Inr [OF u] by blast
qed

lemma process_steps_sequences:
  assumes "process_steps c fie fid ft li lo sr sd tem mro mrnn s = (None, r)"
  shows "\<exists>fie' fid' s'. process_sequences c fie' fid' ft li lo s' = (None, r)"
proof -
  from assms obtain sr' where sr': "process_split_ratio s sr sd = Inr sr'"
    by (cases "process_split_ratio s sr sd") (simp_all add: process_steps_def)
  obtain e feats s1 where pt: "process_temporal c sr' ft (case tem of None \<Rightarrow> [] | Some ms \<Rightarrow> ms)
      (fie, fid) s = (e, feats, s1)"
    by (metis prod_cases3)
  obtain fie' fid' where feats: "feats = (fie', fid')" by (cases feats)
  from assms sr' pt feats have e: "e = None"
    by (cases e) (simp_all add: process_steps_def)
  from assms sr' pt feats e have
    "run ([process_transform c sr' mro mrnn fie' fid' ft]
            @ [process_sequences c fie' fid' ft li lo]) s1 = (None, r)"
    by (simp add: process_steps_def)
  from run_append_last [OF this] show ?thesis by blast
qed

lemma process_stores:
  assumes "process c tc fie fid ft li lo sr sd tem mro mrnn ar self = (None, r)"
  shows "\<exists>Xe Xd y ysh yl d f g.
      extract_sequences_encoder_decoder c d f g (PStr ft) (PInt li) (PInt lo) 1 1
        = Inr [Xe, Xd, y, ysh, yl]
      \<and> self_X r = Some [Xe, Xd, ysh, yl] \<and> self_y r = Some y \<and> X_encoder r = Some Xe
      \<and> X_decoder r = Some Xd \<and> y_shifted r = Some ysh \<and> y_last r = Some yl"
proof -
  from assms obtain s where "process_steps c fie fid ft li lo sr sd tem mro mrnn s = (None, r)"
    by (cases "sr = None \<and> sd = None") (simp_all add: process_def Let_def)
  from process_steps_sequences [OF this] obtain fie' fid' s' where
    "process_sequences c fie' fid' ft li lo s' = (None, r)" by blast
  from process_sequences_stores [OF this] obtain Xe Xd y ysh yl where
    x: "extract_sequences_encoder_decoder c (df_processed s') (PList (map PStr fie'))
        (PList (map PStr fid')) (PStr ft) (PInt li) (PInt lo) 1 1 = Inr [Xe, Xd, y, ysh, yl]"
    and r: "r = s'\<lparr>X_encoder := Some Xe, X_decoder := Some Xd, y_last := Some yl,
              y_shifted := Some ysh, self_X := Some [Xe, Xd, ysh, yl], self_y := Some y\<rparr>"
    by blast
  from r have "self_X r = Some [Xe, Xd, ysh, yl] \<and> self_y r = Some y \<and> X_encoder r = Some Xe
      \<and> X_decoder r = Some Xd \<and> y_shifted r = Some ysh \<and> y_last r = Some yl"
    by simp
  with x show ?thesis by blast
qed

lemma process_from_config_stores:
  assumes "process_from_config c fs p a b self = (None, r)"
  shows "\<exists>Xe Xd y yl d f g t li lo.
      extract_sequences_encoder_decoder c d f g t li lo 1 1 = Inr [Xe, Xd, y, yl]
      \<and> self_X r = Some (if py_truthy (autoregressive r) then [Xe, Xd, yl] else [Xe, Xd])
      \<and> self_y r = Some y"
proof -
  have "process_from_config c fs p a b self
      = run ([\<lambda>self. (None, case a of None \<Rightarrow> self | Some n \<Rightarrow> self\<lparr>input_seq_len := PInt n\<rparr>),
              \<lambda>self. (None, case b of None \<Rightarrow> self | Some n \<Rightarrow> self\<lparr>output_seq_len := PInt n\<rparr>),
              load_dataset_config fs p] @ [from_config_transform c]) self"
    by (simp only: process_from_config_def append.simps)
  with assms have "run ([\<lambda>self. (None, case a of None \<Rightarrow> self | Some n \<Rightarrow> self\<lparr>input_seq_len := PInt n\<rparr>),
              \<lambda>self. (None, case b of None \<Rightarrow> self | Some n \<Rightarrow> self\<lparr>output_seq_len := PInt n\<rparr>),
              load_dataset_config fs p] @ [from_config_transform c]) self = (None, r)"
    by simp
  from run_append_last [OF this] obtain s' where s': "from_config_transform c s' = (None, r)"
    by (rule exE)
  have "from_config_transform c
      = run ((from_config_encodings c # butlast (from_config_sequences c))
               @ [from_config_extract c])"
    by (simp add: from_config_transform_def from_config_sequences_def)
  with s' have "run ((from_config_encodings c # butlast (from_config_sequences c))
               @ [from_config_extract c]) s' = (None, r)"
    by simp
  from run_append_last [OF this] obtain s'' where "from_config_extract c s'' = (None, r)"
    by (rule exE)
  from from_config_extract_stores [OF this] obtain Xe Xd y yl where
    x: "extract_sequences_encoder_decoder c (df_processed s'') (features_input_encoder s'')
        (features_input_decoder s'') (feature_target s'') (input_seq_len s'') (output_seq_len s'')
        1 1 = Inr [Xe, Xd, y, yl]"
    and r: "r = s''\<lparr>self_X := Some (if py_truthy (autoregressive s'') then [Xe, Xd, yl]
                                    else [Xe, Xd]), self_y := Some y\<rparr>"
    by blast
  from r have "self_X r = Some (if py_truthy (autoregressive r) then [Xe, Xd, yl] else [Xe, Xd])
      \<and> self_y r = Some y"
    by simp
  with x show ?thesis by blast
qed

section \<open>A load that succeeds\<close>

lemma load_complete:
  assumes "json_load fs (os_path_join p ''dataset_config.json'') = Inr d"
    and "py_getitem_str d ''features_input_encoder'' = Inr v_fie"
    and "py_getitem_str d ''features_input_decoder'' = Inr v_fid"
    and "py_getitem_str d ''feature_target'' = Inr v_ft"
    and "py_getitem_str d ''temporal_encoding'' = Inr v_te"
    and "py_getitem_str d ''autoregressive'' = Inr v_ar"
    and "py_getitem_str d ''input_seq_len'' = Inr v_li"
    and "py_getitem_str d ''output_seq_len'' = Inr v_lo"
    and "pickle_load fs (os_path_join p ''NaNHandler.pkl'') = Inr w_nan"
    and "pickle_load fs (os_path_join p ''OneHotEncoder.pkl'') = Inr w_ohe"
    and "pickle_load fs (os_path_join p ''scaler_X.pkl'') = Inr w_sx"
    and "pickle_load fs (os_path_join p ''scaler_y.pkl'') = Inr w_sy"
  shows "load_dataset_config fs p self =
     (None, self\<lparr>features_input_encoder := v_fie, features_input_decoder := v_fid,
                 feature_target := v_ft, temporal_encodings := v_te, autoregressive := v_ar,
                 input_seq_len := v_li, output_seq_len := v_lo, nan_handler := w_nan,
                 one_hot_encoder := w_ohe, scaler_X := w_sx, scaler_y := w_sy\<rparr>)"
  using assms by (simp add: load_dataset_config_def assign_item_def assign_pickle_def)

lemma load_success_facts:
  assumes "fst (load_dataset_config fs p self) = None"
  obtains d v_fie v_fid v_ft v_te v_ar v_li v_lo w_nan w_ohe w_sx w_sy where
    "json_load fs (os_path_join p ''dataset_config.json'') = Inr d"
    "py_getitem_str d ''features_input_encoder'' = Inr v_fie"
    "py_getitem_str d ''features_input_decoder'' = Inr v_fid"
    "py_getitem_str d ''feature_target'' = Inr v_ft"
    "py_getitem_str d ''temporal_encoding'' = Inr v_te"
    "py_getitem_str d ''autoregressive'' = Inr v_ar"
    "py_getitem_str d ''input_seq_len'' = Inr v_li"
    "py_getitem_str d ''output_seq_len'' = Inr v_lo"
    "pickle_load fs (os_path_join p ''NaNHandler.pkl'') = Inr w_nan"
    "pickle_load fs (os_path_join p ''OneHotEncoder.pkl'') = Inr w_ohe"
    "pickle_load fs (os_path_join p ''scaler_X.pkl'') = Inr w_sx"
    "pickle_load fs (os_path_join p ''scaler_y.pkl'') = Inr w_sy"
  using assms
  by (auto simp: load_dataset_config_def assign_item_def assign_pickle_def split: sum.splits)


section \<open>The date-based split\<close>

lemma index_where_snoc:
  "length idx = length keep \<Longrightarrow>
   map fst (filter snd (zip (idx @ [l]) (keep @ [b]))) =
   map fst (filter snd (zip idx keep)) @ (if b then [l] else [])"
  by simp

lemma reset_rows_last:
  "(map fst (filter snd (zip (map int [0..<length ts]) (map f ts))) = []
      \<and> (\<forall>i<length ts. \<not> f (ts ! i)))
   \<or> (\<exists>i<length ts. map fst (filter snd (zip (map int [0..<length ts]) (map f ts))) \<noteq> []
        \<and> last (map fst (filter snd (zip (map int [0..<length ts]) (map f ts)))) = int i
        \<and> f (ts ! i) \<and> (\<forall>j<length ts. f (ts ! j) \<longrightarrow> j \<le> i))"
proof (induction ts rule: rev_induct)
  case Nil
  then show ?case by simp
next
  case (snoc t ts)
  let ?L = "\<lambda>ts. map fst (filter snd (zip (map int [0..<length ts]) (map f ts)))"
  have step: "?L (ts @ [t]) = ?L ts @ (if f t then [int (length ts)] else [])"
    by simp
  show ?case
  proof (cases "f t")
    case True
    have "length ts < length (ts @ [t])" by simp
    moreover have "?L (ts @ [t]) \<noteq> []" using True step by simp
    moreover have "last (?L (ts @ [t])) = int (length ts)" using True step by simp
    moreover have "f ((ts @ [t]) ! length ts)" using True by simp
    moreover have "\<forall>j<length (ts @ [t]). f ((ts @ [t]) ! j) \<longrightarrow> j \<le> length ts" by simp
    ultimately show ?thesis by blast
  next
    case False
    have same: "?L (ts @ [t]) = ?L ts" using False step by simp
    from snoc.IH show ?thesis
    proof
      assume a: "?L ts = [] \<and> (\<forall>i<length ts. \<not> f (ts ! i))"
      have "\<forall>i<length (ts @ [t]). \<not> f ((ts @ [t]) ! i)"
        using a False by (auto simp: nth_append less_Suc_eq)
      then show ?thesis using a same by simp
    next
      assume "\<exists>i<length ts. ?L ts \<noteq> [] \<and> last (?L ts) = int i \<and> f (ts ! i)
                \<and> (\<forall>j<length ts. f (ts ! j) \<longrightarrow> j \<le> i)"
      then obtain i where i: "i < length ts" "?L ts \<noteq> []" "last (?L ts) = int i" "f (ts ! i)"
        "\<forall>j<length ts. f (ts ! j) \<longrightarrow> j \<le> i" by blast
      have "i < length (ts @ [t])" using i(1) by simp
      moreover have "f ((ts @ [t]) ! i)" using i(1,4) by (simp add: nth_append)
      moreover have "\<forall>j<length (ts @ [t]). f ((ts @ [t]) ! j) \<longrightarrow> j \<le> i"
        using i(5) False by (auto simp: nth_append less_Suc_eq)
      ultimately show ?thesis using i(2,3) same by auto
    qed
  qed
qed

lemma i_split_of_last_row:
  assumes idx: "df_index df = map int [0..<n]"
    and col: "df_getitem df col = Inr (DatetimeSeries ts)"
    and len: "length ts = n"
    and i: "i < n" "date_lt (dt_date (ts ! i)) d"
    and mx: "\<forall>j<n. date_lt (dt_date (ts ! j)) d \<longrightarrow> j \<le> i"
  shows "i_split_of df col d = Inr (int i)"
proof -
  let ?f = "\<lambda>t. date_lt (dt_date t) d"
  let ?L = "map fst (filter snd (zip (map int [0..<length ts]) (map ?f ts)))"
  from reset_rows_last [where f = ?f and ts = ts] i len
  obtain k where k: "k < length ts" "?L \<noteq> []" "last ?L = int k" "?f (ts ! k)"
    "\<forall>j<length ts. ?f (ts ! j) \<longrightarrow> j \<le> k" by blast
  have "k \<le> i" using mx k(1,4) len by simp
  moreover have "i \<le> k" using k(5) i len by simp
  ultimately have "k = i" by simp
  then show ?thesis
    using k(2,3) idx col len
    by (simp add: i_split_of_def dt_accessor_def index_where_def index_last_def)
qed

lemma i_split_of_no_row:
  assumes col: "df_getitem df col = Inr (DatetimeSeries ts)"
    and none: "\<forall>t\<in>set ts. \<not> date_lt (dt_date t) d"
  shows "i_split_of df col d = Inl IndexError"
proof -
  have "filter snd (zip (df_index df) (map (\<lambda>t. date_lt (dt_date t) d) ts)) = []"
    using none by (auto simp: filter_empty_conv zip_map2 dest: set_zip_rightD)
  then show ?thesis
    using col by (simp add: i_split_of_def dt_accessor_def index_where_def index_last_def)
qed


lemma date_split_ratio_last_row:
  assumes "df_index df = map int [0..<n]"
    and "df_getitem df col = Inr (DatetimeSeries ts)"
    and "length ts = n"
    and "i < n" "date_lt (dt_date (ts ! i)) d"
    and "\<forall>j<n. date_lt (dt_date (ts ! j)) d \<longrightarrow> j \<le> i"
  shows "date_split_ratio df col d = Inr (of_nat i / of_nat n)"
  using i_split_of_last_row [OF assms] assms(1)
  by (simp add: date_split_ratio_def shape0_def)

lemma process_with_date_ratio:
  assumes "date_split_ratio (df_raw self) ''date / time'' d = Inr r"
  shows "process c tc fie fid ft len_in len_out sr (Some d) tem mro mrnn ar self =
         process c tc fie fid ft len_in len_out (Some r) None tem mro mrnn ar self"
  using assms by (simp add: process_def process_steps_def process_split_ratio_def Let_def)

lemma process_temporal_features:
  "process_temporal c ratio ft ms (fie, fid) s = (None, feats, r) \<Longrightarrow>
   feats = (fie @ map ((@) ''temporal_encoding_'') ms, fid @ map ((@) ''temporal_encoding_'') ms)"
proof (induction ms arbitrary: fie fid s)
  case Nil
  then show ?case by simp
next
  case (Cons m ms)
  from Cons.prems obtain s' where
    "process_temporal c ratio ft ms
       (fie @ [''temporal_encoding_'' @ m], fid @ [''temporal_encoding_'' @ m]) s'
     = (None, feats, r)"
    by (auto simp: Let_def split: sum.splits prod.splits)
  from Cons.IH [OF this] show ?case by simp
qed

lemma process_transform_scalers:
  assumes "process_transform c ratio mro mrnn fie fid ft s = (None, r)"
  shows "(\<exists>d_in d_out. scale_input_data c d_in (PList (map PStr fie)) (PList (map PStr fid))
              (PStr ft) ratio None = Inr (d_out, scaler_X r))
       \<and> (\<exists>d_in d_out. scale_target_data c d_in (PList [PStr ft]) ratio None
              = Inr (d_out, scaler_y r))"
  using assms unfolding process_transform_def reset_index_stmt_def
  by (auto split: sum.splits prod.splits option.splits) blast+

lemma process_sequences_keeps_scalers:
  assumes "process_sequences c fie fid ft li lo s = (None, r)"
  shows "scaler_X r = scaler_X s \<and> scaler_y r = scaler_y s"
  using assms
  by (auto simp: process_sequences_def Let_def split: sum.splits prod.splits)

lemma process_scalers:
  assumes ok: "process c tc fie fid ft li lo sr (Some d) tem mro mrnn ar self = (None, r)"
    and ratio: "date_split_ratio (df_raw self) ''date / time'' d = Inr q"
  shows "(\<exists>d_in d_out.
            scale_input_data c d_in
              (PList (map PStr (fie @ map ((@) ''temporal_encoding_'')
                                       (case tem of None \<Rightarrow> [] | Some ms \<Rightarrow> ms))))
              (PList (map PStr (fid @ map ((@) ''temporal_encoding_'')
                                       (case tem of None \<Rightarrow> [] | Some ms \<Rightarrow> ms))))
              (PStr ft) (Some q) None = Inr (d_out, scaler_X r))
       \<and> (\<exists>d_in d_out. scale_target_data c d_in (PList [PStr ft]) (Some q) None
              = Inr (d_out, scaler_y r))"
proof -
  let ?ms = "case tem of None \<Rightarrow> [] | Some ms \<Rightarrow> ms"
  obtain s0 where steps: "process_steps c fie fid ft li lo sr (Some d) tem mro mrnn s0 = (None, r)"
    and raw: "df_processed s0 = Some (df_raw self)"
    using ok by (simp add: process_def Let_def)
  have sr': "process_split_ratio s0 sr (Some d) = Inr (Some q)"
    using raw ratio by (simp add: process_split_ratio_def)
  obtain e feats s1 where pt: "process_temporal c (Some q) ft ?ms (fie, fid) s0 = (e, feats, s1)"
    by (metis prod_cases3)
  obtain fie' fid' where feats: "feats = (fie', fid')" by (cases feats)
  from steps sr' pt feats have e: "e = None"
    by (cases e) (simp_all add: process_steps_def)
  from steps sr' pt feats e have
    "run [process_transform c (Some q) mro mrnn fie' fid' ft,
          process_sequences c fie' fid' ft li lo] s1 = (None, r)"
    by (simp add: process_steps_def)
  then obtain s2 where tr: "process_transform c (Some q) mro mrnn fie' fid' ft s1 = (None, s2)"
    and "run [process_sequences c fie' fid' ft li lo] s2 = (None, r)"
    by (rule run_cons_success)
  then have sq: "process_sequences c fie' fid' ft li lo s2 = (None, r)"
    by (auto split: prod.splits option.splits)
  have f: "fie' = fie @ map ((@) ''temporal_encoding_'') ?ms"
       "fid' = fid @ map ((@) ''temporal_encoding_'') ?ms"
    using process_temporal_features pt e feats by blast+
  show ?thesis
    using process_transform_scalers [OF tr] process_sequences_keeps_scalers [OF sq] f
    by simp
qed

text \<open>
  Claim C4. On a table whose index is \<open>0, \<dots>, n - 1\<close>, let \<open>i\<close> be the last row whose
  timestamp falls on a day strictly before the split date. Then the split ratio computed
  from the date is \<open>i / n\<close>; \<open>train_test_split_date\<close> hands exactly this ratio to the
  ratio-based split of the class (and filters its result by month); \<open>process\<close> with a
  split date behaves as \<open>process\<close> with the split ratio \<open>i / n\<close> and no date, whatever
  split ratio was passed along with the date; and when \<open>process\<close> with the split date
  returns, the scalers it has stored are the ones that \<open>scale_input_data\<close> and
  \<open>scale_target_data\<close> fitted with the split ratio \<open>i / n\<close>, on the feature lists extended by
  the names of the temporal encodings.
\<close>

theorem date_split_is_index_ratio_split:
  assumes "df_index df = map int [0..<n]"
    and "df_getitem df col = Inr (DatetimeSeries ts)"
    and "length ts = n"
    and "i < n" "date_lt (dt_date (ts ! i)) d"
    and "\<forall>j<n. date_lt (dt_date (ts ! j)) d \<longrightarrow> j \<le> i"
  shows "date_split_ratio df col d = Inr (of_nat i / of_nat n)
     \<and> (df_processed self = Some df \<longrightarrow>
          train_test_split_date c col d (Some months) self =
            (case train_test_split c (of_nat i / of_nat n) self of
               Inl e \<Rightarrow> Inl e
             | Inr parts \<Rightarrow> month_filter df col months parts))
     \<and> (df_processed self = Some df \<longrightarrow>
          train_test_split_date c col d None self =
            (case train_test_split c (of_nat i / of_nat n) self of
               Inl e \<Rightarrow> Inl e
             | Inr parts \<Rightarrow> month_filter df col [1..<13] parts))
     \<and> (df_raw self = df \<and> col = ''date / time'' \<longrightarrow>
          process c tc fie fid ft len_in len_out sr (Some d) tem mro mrnn ar self =
          process c tc fie fid ft len_in len_out (Some (of_nat i / of_nat n)) None tem mro mrnn ar
            self)
     \<and> (df_raw self = df \<and> col = ''date / time''
          \<and> process c tc fie fid ft len_in len_out sr (Some d) tem mro mrnn ar self = (None, r) \<longrightarrow>
          (\<exists>d_in d_out.
             scale_input_data c d_in
               (PList (map PStr (fie @ map ((@) ''temporal_encoding_'')
                                        (case tem of None \<Rightarrow> [] | Some ms \<Rightarrow> ms))))
               (PList (map PStr (fid @ map ((@) ''temporal_encoding_'')
                                        (case tem of None \<Rightarrow> [] | Some ms \<Rightarrow> ms))))
               (PStr ft) (Some (of_nat i / of_nat n)) None = Inr (d_out, scaler_X r))
          \<and> (\<exists>d_in d_out.
               scale_target_data c d_in (PList [PStr ft]) (Some (of_nat i / of_nat n)) None
                 = Inr (d_out, scaler_y r)))"
proof -
  have r: "date_split_ratio df col d = Inr (of_nat i / of_nat n)"
    by (rule date_split_ratio_last_row [OF assms])
  have a: "df_processed self = Some df \<Longrightarrow>
          train_test_split_date c col d (Some months) self =
            (case train_test_split c (of_nat i / of_nat n) self of
               Inl e \<Rightarrow> Inl e
             | Inr parts \<Rightarrow> month_filter df col months parts)"
    using r by (simp add: train_test_split_date_def train_test_split_def)
  have a': "df_processed self = Some df \<Longrightarrow>
          train_test_split_date c col d None self =
            (case train_test_split c (of_nat i / of_nat n) self of
               Inl e \<Rightarrow> Inl e
             | Inr parts \<Rightarrow> month_filter df col [1..<13] parts)"
    using r by (simp add: train_test_split_date_def train_test_split_def del: One_nat_def)
  have b: "df_raw self = df \<and> col = ''date / time'' \<Longrightarrow>
          process c tc fie fid ft len_in len_out sr (Some d) tem mro mrnn ar self =
          process c tc fie fid ft len_in len_out (Some (of_nat i / of_nat n)) None tem mro mrnn ar
            self"
    using r process_with_date_ratio by blast
  have b': "df_raw self = df \<and> col = ''date / time''
          \<and> process c tc fie fid ft len_in len_out sr (Some d) tem mro mrnn ar self = (None, r) \<Longrightarrow>
          (\<exists>d_in d_out.
             scale_input_data c d_in
               (PList (map PStr (fie @ map ((@) ''temporal_encoding_'')
                                        (case tem of None \<Rightarrow> [] | Some ms \<Rightarrow> ms))))
               (PList (map PStr (fid @ map ((@) ''temporal_encoding_'')
                                        (case tem of None \<Rightarrow> [] | Some ms \<Rightarrow> ms))))
               (PStr ft) (Some (of_nat i / of_nat n)) None = Inr (d_out, scaler_X r))
          \<and> (\<exists>d_in d_out.
               scale_target_data c d_in (PList [PStr ft]) (Some (of_nat i / of_nat n)) None
                 = Inr (d_out, scaler_y r))"
  proof -
    assume h: "df_raw self = df \<and> col = ''date / time''
          \<and> process c tc fie fid ft len_in len_out sr (Some d) tem mro mrnn ar self = (None, r)"
    then have "date_split_ratio (df_raw self) ''date / time'' d = Inr (of_nat i / of_nat n)"
      using r by simp
    with h show ?thesis using process_scalers by blast
  qed
  from r a a' b b' show ?thesis by blast
qed

lemma winter_before_feb:
  "\<forall>j<10. date_lt (dt_date (map daily_stamp [24..<34] ! j)) (Date 2020 2 1) \<longrightarrow> j \<le> 3"
proof (intro allI impI)
  fix j :: nat
  assume j: "j < 10"
    and lt: "date_lt (dt_date (map daily_stamp [24..<34] ! j)) (Date 2020 2 1)"
  have "j \<in> {0,1,2,3,4,5,6,7,8,9}" using j by auto
  then show "j \<le> 3" using lt by (auto simp: daily_stamp_def)
qed

theorem date_split_is_index_ratio_split_witness:
  "df_index winter_table = map int [0..<10]
   \<and> df_getitem winter_table ''date / time'' = Inr (DatetimeSeries (map daily_stamp [24..<34]))
   \<and> date_lt (dt_date (map daily_stamp [24..<34] ! 3)) (Date 2020 2 1)
   \<and> df_processed winter_dataset = Some winter_table
   \<and> df_raw winter_dataset = winter_table
   \<and> date_split_ratio winter_table ''date / time'' (Date 2020 2 1) = Inr (3 / 10)
   \<and> train_test_split_date (example_collaborators 5) ''date / time'' (Date 2020 2 1) (Some [1, 2])
        winter_dataset
       = (case train_test_split (example_collaborators 5) (3 / 10) winter_dataset of
            Inl e \<Rightarrow> Inl e
          | Inr parts \<Rightarrow> month_filter winter_table ''date / time'' [1, 2] parts)
   \<and> process (example_collaborators 5) ''date / time'' [''temperature''] [] ''load'' 3 2
        (Some (9 / 10)) (Some (Date 2020 2 1)) None None None False winter_dataset
       = process (example_collaborators 5) ''date / time'' [''temperature''] [] ''load'' 3 2
        (Some (3 / 10)) None None None None False winter_dataset
   \<and> fst (process (example_collaborators 5) ''date / time'' [''temperature''] [] ''load'' 3 2
        (Some (9 / 10)) (Some (Date 2020 2 1)) None None None False winter_dataset) = None
   \<and> scaler_X (snd (process (example_collaborators 5) ''date / time'' [''temperature''] []
        ''load'' 3 2 (Some (9 / 10)) (Some (Date 2020 2 1)) None None None False winter_dataset))
       = fitted_with (Some (3 / 10))
   \<and> scaler_y (snd (process (example_collaborators 5) ''date / time'' [''temperature''] []
        ''load'' 3 2 (Some (9 / 10)) (Some (Date 2020 2 1)) None None None False winter_dataset))
       = fitted_with (Some (3 / 10))
   \<and> (\<exists>d_in d_out.
         scale_input_data (example_collaborators 5) d_in (PList [PStr ''temperature'']) (PList [])
           (PStr ''load'') (Some (3 / 10)) None
         = Inr (d_out, scaler_X (snd (process (example_collaborators 5) ''date / time''
              [''temperature''] [] ''load'' 3 2 (Some (9 / 10)) (Some (Date 2020 2 1)) None None
              None False winter_dataset))))
   \<and> (\<exists>d_in d_out.
         scale_target_data (example_collaborators 5) d_in (PList [PStr ''load'']) (Some (3 / 10))
           None
         = Inr (d_out, scaler_y (snd (process (example_collaborators 5) ''date / time''
              [''temperature''] [] ''load'' 3 2 (Some (9 / 10)) (Some (Date 2020 2 1)) None None
              None False winter_dataset))))"
proof -
  let ?P = "process (example_collaborators 5) ''date / time'' [''temperature''] [] ''load'' 3 2
        (Some (9 / 10)) (Some (Date 2020 2 1)) None None None False winter_dataset"
  have h1: "df_index winter_table = map int [0..<10]"
    by (simp add: winter_table_def daily_table_def)
  have h2: "df_getitem winter_table ''date / time''
       = Inr (DatetimeSeries (map daily_stamp [24..<34]))"
    by (simp add: winter_table_def daily_table_def df_getitem_def)
  have h3: "length (map daily_stamp [24..<34]) = 10" by simp
  have h4: "(3::nat) < 10" by simp
  have h5: "date_lt (dt_date (map daily_stamp [24..<34] ! 3)) (Date 2020 2 1)"
    by (simp add: daily_stamp_def)
  note h6 = winter_before_feb
  have h7: "df_processed winter_dataset = Some winter_table"
    by (simp add: winter_dataset_def windowed_dataset_def)
  have h8: "df_raw winter_dataset = winter_table"
    by (simp add: winter_dataset_def windowed_dataset_def DataSet_def)
  have h9: "fst ?P = None" by code_simp
  have h10: "?P = (None, snd ?P)" using h9 by (metis prod.collapse)
  have h11: "scaler_X (snd ?P) = fitted_with (Some (3 / 10))" by code_simp
  have h12: "scaler_y (snd ?P) = fitted_with (Some (3 / 10))" by code_simp
  note t = date_split_is_index_ratio_split [OF h1 h2 h3 h4 h5 h6,
      where self = winter_dataset and c = "example_collaborators 5" and months = "[1, 2]"
        and tc = "''date / time''" and fie = "[''temperature'']" and fid = "[]"
        and ft = "''load''" and len_in = 3 and len_out = 2 and sr = "Some (9 / 10)"
        and tem = None and mro = None and mrnn = None and ar = False and r = "snd ?P"]
  from t have c1: "date_split_ratio winter_table ''date / time'' (Date 2020 2 1) = Inr (3 / 10)"
    by simp
  from t h7 have c2: "train_test_split_date (example_collaborators 5) ''date / time''
        (Date 2020 2 1) (Some [1, 2]) winter_dataset
       = (case train_test_split (example_collaborators 5) (3 / 10) winter_dataset of
            Inl e \<Rightarrow> Inl e
          | Inr parts \<Rightarrow> month_filter winter_table ''date / time'' [1, 2] parts)"
    by simp
  from t h8 have c3: "?P = process (example_collaborators 5) ''date / time'' [''temperature''] []
        ''load'' 3 2 (Some (3 / 10)) None None None None False winter_dataset"
    by simp
  note t5 = t [THEN conjunct2, THEN conjunct2, THEN conjunct2, THEN conjunct2,
      unfolded option.case list.map append_Nil2, rule_format,
      OF conjI [OF h8 conjI [OF refl h10]]]
  have c4: "(\<exists>d_in d_out.
         scale_input_data (example_collaborators 5) d_in (PList [PStr ''temperature'']) (PList [])
           (PStr ''load'') (Some (3 / 10)) None = Inr (d_out, scaler_X (snd ?P)))
     \<and> (\<exists>d_in d_out.
         scale_target_data (example_collaborators 5) d_in (PList [PStr ''load'']) (Some (3 / 10))
           None = Inr (d_out, scaler_y (snd ?P)))"
    using t5 by simp
  from h1 h2 h5 h7 h8 c1 c2 c3 h9 h11 h12 c4 show ?thesis by blast
qed

lemma date_lt_irrefl: "\<not> date_lt a a"
  by (cases a) simp

lemma daily_stamp_mono:
  "i \<le> j \<Longrightarrow> \<not> date_lt (dt_date (daily_stamp j)) (dt_date (daily_stamp i))"
proof -
  assume le: "i \<le> j"
  have d: "i div 28 \<le> j div 28" using le by (rule div_le_mono)
  have "i div 28 = j div 28 \<Longrightarrow> i mod 28 \<le> j mod 28"
  proof -
    assume e: "i div 28 = j div 28"
    have "i = 28 * (i div 28) + i mod 28" by simp
    moreover have "j = 28 * (j div 28) + j mod 28" by simp
    ultimately show ?thesis using le e by linarith
  qed
  then show ?thesis using d by (auto simp: daily_stamp_def)
qed

lemma daily_chronological:
  "sorted_wrt (\<lambda>a b. \<not> date_lt (dt_date b) (dt_date a)) (map daily_stamp [m..<n])"
  by (simp add: sorted_wrt_iff_nth_less daily_stamp_mono)

lemma date_split_ratio_not_own_row:
  assumes idx: "df_index df = map int [0..<n]"
    and col: "df_getitem df col = Inr (DatetimeSeries ts)"
    and len: "length ts = n"
    and k: "k < n"
  shows "date_split_ratio df col (dt_date (ts ! k)) \<noteq> Inr (of_nat k / of_nat n)"
proof -
  let ?f = "\<lambda>t. date_lt (dt_date t) (dt_date (ts ! k))"
  let ?L = "map fst (filter snd (zip (map int [0..<length ts]) (map ?f ts)))"
  have npos: "(of_nat n :: rat) \<noteq> 0" using k by simp
  from reset_rows_last [where f = ?f and ts = ts]
  show ?thesis
  proof
    assume "?L = [] \<and> (\<forall>i<length ts. \<not> ?f (ts ! i))"
    then show ?thesis
      using idx col len
      by (simp add: date_split_ratio_def i_split_of_def dt_accessor_def index_where_def
          index_last_def)
  next
    assume "\<exists>i<length ts. ?L \<noteq> [] \<and> last ?L = int i \<and> ?f (ts ! i)
              \<and> (\<forall>j<length ts. ?f (ts ! j) \<longrightarrow> j \<le> i)"
    then obtain i where i: "?L \<noteq> []" "last ?L = int i" "?f (ts ! i)" by blast
    have "i \<noteq> k" using i(3) date_lt_irrefl by auto
    then have "(of_nat i :: rat) / of_nat n \<noteq> of_nat k / of_nat n"
      using npos by simp
    then show ?thesis
      using i(1,2) idx col len
      by (simp add: date_split_ratio_def i_split_of_def dt_accessor_def index_where_def
          index_last_def shape0_def)
  qed
qed

text \<open>
  Claim C5, as stated, fails: on a table of 100 daily rows the split date taken from row 50
  gives the ratio \<open>49 / 100\<close>, not \<open>50 / 100\<close>. Row 50 is not before its own date, so the
  last earlier row is row 49. (By \<open>date_split_ratio_not_own_row\<close> no table with the index
  \<open>0, \<dots>, 99\<close> gives \<open>50 / 100\<close>.)
\<close>

theorem split_date_of_row_50_counterexample:
  "date_split_ratio hundred_days ''date / time'' (dt_date (daily_stamp 50)) = Inr (49 / 100)
   \<and> date_split_ratio hundred_days ''date / time'' (dt_date (daily_stamp 50)) \<noteq> Inr (50 / 100)"
proof -
  have "date_split_ratio hundred_days ''date / time'' (dt_date (daily_stamp 50)) = Inr (49 / 100)"
    by code_simp
  then show ?thesis by simp
qed

text \<open>
  Claim C5, amended. For a chronologically ordered table of 100 rows, indexed
  \<open>0, \<dots>, 99\<close>, in which row 49 falls on an earlier day than row 50, the split date equal to
  the date of row 50 gives the split ratio \<open>49 / 100 = 0.49\<close>.
\<close>

theorem split_date_of_row_50:
  assumes "df_index df = map int [0..<100]"
    and "df_getitem df col = Inr (DatetimeSeries ts)"
    and "length ts = 100"
    and "sorted_wrt (\<lambda>a b. \<not> date_lt (dt_date b) (dt_date a)) ts"
    and "date_lt (dt_date (ts ! 49)) (dt_date (ts ! 50))"
  shows "date_split_ratio df col (dt_date (ts ! 50)) = Inr (49 / 100)"
proof -
  have mx: "\<forall>j<100. date_lt (dt_date (ts ! j)) (dt_date (ts ! 50)) \<longrightarrow> j \<le> 49"
  proof (intro allI impI)
    fix j :: nat
    assume j: "j < 100" and lt: "date_lt (dt_date (ts ! j)) (dt_date (ts ! 50))"
    show "j \<le> 49"
    proof (rule ccontr)
      assume "\<not> j \<le> 49"
      then have "50 \<le> j" by simp
      then have "50 = j \<or> 50 < j" by auto
      then show False
      proof
        assume "50 = j"
        then show False using lt date_lt_irrefl by auto
      next
        assume "50 < j"
        then have "\<not> date_lt (dt_date (ts ! j)) (dt_date (ts ! 50))"
          using assms(3,4) j by (simp add: sorted_wrt_iff_nth_less)
        then show False using lt by simp
      qed
    qed
  qed
  have "date_split_ratio df col (dt_date (ts ! 50)) = Inr (of_nat 49 / of_nat 100)"
    by (rule date_split_ratio_last_row [OF assms(1) assms(2) assms(3) _ assms(5) mx]) simp
  then show ?thesis by simp
qed

theorem split_date_of_row_50_witness:
  "df_index hundred_days = map int [0..<100]
   \<and> df_getitem hundred_days ''date / time'' = Inr (DatetimeSeries (map daily_stamp [0..<100]))
   \<and> sorted_wrt (\<lambda>a b. \<not> date_lt (dt_date b) (dt_date a)) (map daily_stamp [0..<100])
   \<and> date_lt (dt_date (map daily_stamp [0..<100] ! 49)) (dt_date (map daily_stamp [0..<100] ! 50))
   \<and> date_split_ratio hundred_days ''date / time'' (dt_date (map daily_stamp [0..<100] ! 50))
        = Inr (49 / 100)"
proof -
  have h1: "df_index hundred_days = map int [0..<100]"
    by (simp add: hundred_days_def daily_table_def)
  have h2: "df_getitem hundred_days ''date / time''
        = Inr (DatetimeSeries (map daily_stamp [0..<100]))"
    by (simp add: hundred_days_def daily_table_def df_getitem_def)
  have h3: "length (map daily_stamp [0..<100]) = 100" by simp
  have h4: "sorted_wrt (\<lambda>a b. \<not> date_lt (dt_date b) (dt_date a)) (map daily_stamp [0..<100])"
    by (rule daily_chronological)
  have h5: "date_lt (dt_date (map daily_stamp [0..<100] ! 49))
              (dt_date (map daily_stamp [0..<100] ! 50))"
    by (simp add: daily_stamp_def)
  from split_date_of_row_50 [OF h1 h2 h3 h4 h5] h1 h2 h4 h5 show ?thesis by blast
qed

lemma date_split_ratio_no_row:
  assumes "df_getitem df col = Inr (DatetimeSeries ts)"
    and "\<forall>t\<in>set ts. \<not> date_lt (dt_date t) d"
  shows "date_split_ratio df col d = Inl IndexError"
  using i_split_of_no_row [OF assms] by (simp add: date_split_ratio_def)

lemma process_split_date_error:
  assumes "date_split_ratio (df_raw self) ''date / time'' d = Inl e"
  shows "fst (process c tc fie fid ft len_in len_out sr (Some d) tem mro mrnn ar self) = Some e"
  using assms by (simp add: process_def process_steps_def process_split_ratio_def Let_def)

text \<open>
  Claim C8, as stated, fails: with a split date on the day of the first row, no row is
  earlier, and both \<open>train_test_split_date\<close> and \<open>process\<close> raise \<open>IndexError\<close> (from
  \<open>.index[-1]\<close> on an empty index), not \<open>DateNotFoundError\<close>.
\<close>

theorem date_split_no_earlier_row_counterexample:
  "train_test_split_date (example_collaborators 5) ''date / time'' (Date 2020 1 25) None
     winter_dataset = Inl IndexError
   \<and> train_test_split_date (example_collaborators 5) ''date / time'' (Date 2020 1 25) None
     winter_dataset \<noteq> Inl DateNotFoundError
   \<and> fst (process (example_collaborators 5) ''date / time'' [] [] ''target'' 3 2 None
        (Some (Date 2020 1 25)) None None None False winter_dataset) = Some IndexError"
proof -
  have r: "date_split_ratio winter_table ''date / time'' (Date 2020 1 25) = Inl IndexError"
    by code_simp
  have a: "train_test_split_date (example_collaborators 5) ''date / time'' (Date 2020 1 25) None
     winter_dataset = Inl IndexError"
    using r by (simp add: train_test_split_date_def winter_dataset_def windowed_dataset_def)
  have "df_raw winter_dataset = winter_table"
    by (simp add: winter_dataset_def windowed_dataset_def DataSet_def)
  then have b: "fst (process (example_collaborators 5) ''date / time'' [] [] ''target'' 3 2 None
        (Some (Date 2020 1 25)) None None None False winter_dataset) = Some IndexError"
    using r by (simp add: process_split_date_error)
  from a b show ?thesis by simp
qed

text \<open>
  Claim C8, amended. If no row of the date column falls on a day before the split date,
  the date-based split fails with an \<open>IndexError\<close>: the ratio computation does, and with
  it \<open>train_test_split_date\<close> and \<open>process\<close> called with that split date.
\<close>

theorem date_split_no_earlier_row:
  assumes "df_getitem df col = Inr (DatetimeSeries ts)"
    and "\<forall>t\<in>set ts. \<not> date_lt (dt_date t) d"
  shows "date_split_ratio df col d = Inl IndexError
     \<and> (df_processed self = Some df \<longrightarrow>
          train_test_split_date c col d months self = Inl IndexError)
     \<and> (df_raw self = df \<and> col = ''date / time'' \<longrightarrow>
          fst (process c tc fie fid ft len_in len_out sr (Some d) tem mro mrnn ar self)
            = Some IndexError)"
proof -
  have r: "date_split_ratio df col d = Inl IndexError"
    by (rule date_split_ratio_no_row [OF assms])
  have a: "df_processed self = Some df \<Longrightarrow>
          train_test_split_date c col d months self = Inl IndexError"
    using r by (simp add: train_test_split_date_def)
  have b: "df_raw self = df \<and> col = ''date / time'' \<Longrightarrow>
          fst (process c tc fie fid ft len_in len_out sr (Some d) tem mro mrnn ar self)
            = Some IndexError"
    using r process_split_date_error by blast
  from r a b show ?thesis by blast
qed

theorem date_split_no_earlier_row_witness:
  "df_getitem winter_table ''date / time'' = Inr (DatetimeSeries (map daily_stamp [24..<34]))
   \<and> df_processed winter_dataset = Some winter_table
   \<and> df_raw winter_dataset = winter_table
   \<and> date_split_ratio winter_table ''date / time'' (Date 2020 1 25) = Inl IndexError
   \<and> train_test_split_date (example_collaborators 5) ''date / time'' (Date 2020 1 25)
        (Some [1, 2]) winter_dataset = Inl IndexError
   \<and> fst (process (example_collaborators 5) ''date / time'' [] [] ''target'' 3 2 None
        (Some (Date 2020 1 25)) None None None False winter_dataset) = Some IndexError"
proof -
  have h1: "df_getitem winter_table ''date / time''
       = Inr (DatetimeSeries (map daily_stamp [24..<34]))"
    by (simp add: winter_table_def daily_table_def df_getitem_def)
  have h2: "\<forall>t\<in>set (map daily_stamp [24..<34]). \<not> date_lt (dt_date t) (Date 2020 1 25)"
    by (auto simp: daily_stamp_def)
  have h3: "df_processed winter_dataset = Some winter_table"
    by (simp add: winter_dataset_def windowed_dataset_def)
  have h4: "df_raw winter_dataset = winter_table"
    by (simp add: winter_dataset_def windowed_dataset_def DataSet_def)
  note t = date_split_no_earlier_row [OF h1 h2, where self = winter_dataset
      and c = "example_collaborators 5" and months = "Some [1, 2]" and tc = "''date / time''"
      and fie = "[]" and fid = "[]" and ft = "''target''" and len_in = 3 and len_out = 2
      and sr = None and tem = None and mro = None and mrnn = None and ar = False]
  show ?thesis using h1 h3 h4 t by simp
qed

text \<open>
  Claim C10. When the table has no column named \<open>"date / time"\<close>, \<open>process\<close> called with a
  split date raises \<open>KeyError\<close> for that name, whatever \<open>time_col\<close> is (also when it names
  the table's timestamp column); and the ratio computed from the split date is the same for
  any two values of \<open>time_col\<close>.
\<close>

theorem process_split_date_needs_date_time_column:
  assumes "map_of (df_columns (df_raw self)) ''date / time'' = None"
  shows "fst (process c tc fie fid ft len_in len_out sr (Some d) tem mro mrnn ar self)
           = Some (KeyError ''date / time'')
     \<and> process_split_ratio (self\<lparr>time_col := Some tc\<rparr>) sr (Some d)
           = process_split_ratio (self\<lparr>time_col := Some tc'\<rparr>) sr (Some d)"
proof -
  have "date_split_ratio (df_raw self) ''date / time'' d = Inl (KeyError ''date / time'')"
    using assms by (simp add: date_split_ratio_def i_split_of_def df_getitem_def)
  then have "fst (process c tc fie fid ft len_in len_out sr (Some d) tem mro mrnn ar self)
           = Some (KeyError ''date / time'')"
    by (rule process_split_date_error)
  moreover have "process_split_ratio (self\<lparr>time_col := Some tc\<rparr>) sr (Some d)
           = process_split_ratio (self\<lparr>time_col := Some tc'\<rparr>) sr (Some d)"
    by (simp add: process_split_ratio_def)
  ultimately show ?thesis by simp
qed

theorem process_split_date_needs_date_time_column_witness:
  "map_of (df_columns (df_raw (DataSet stamped_table :: nat dataset))) ''date / time'' = None
   \<and> df_getitem stamped_table ''timestamp'' = Inr (DatetimeSeries (map daily_stamp [0..<10]))
   \<and> fst (process (example_collaborators 5) ''timestamp'' [] [] ''target'' 3 2 None
        (Some (Date 2020 1 5)) None None None False (DataSet stamped_table))
       = Some (KeyError ''date / time'')"
proof -
  have h: "map_of (df_columns (df_raw (DataSet stamped_table :: nat dataset))) ''date / time''
             = None"
    by (simp add: DataSet_def stamped_table_def daily_table_def)
  have g: "df_getitem stamped_table ''timestamp''
             = Inr (DatetimeSeries (map daily_stamp [0..<10]))"
    by (simp add: stamped_table_def daily_table_def df_getitem_def)
  note t = process_split_date_needs_date_time_column [OF h,
      where c = "example_collaborators 5" and tc = "''timestamp''" and fie = "[]" and fid = "[]"
        and ft = "''target''" and len_in = 3 and len_out = 2 and sr = None
        and d = "Date 2020 1 5" and tem = None and mro = None and mrnn = None and ar = False]
  show ?thesis using h g t by simp
qed

section \<open>The month filter\<close>

text \<open>
  Whenever the index computation of lines 427 to 435 returns, the train selection is not
  empty and the test selection holds a negative index: the last train index passes the test
  \<open>i_months >= i_train[-1]\<close> and the train window count is subtracted from it. This holds
  for every table and every split.
\<close>

lemma month_indices_returns:
  assumes "month_indices df date_col considered_months X_train X_test = Inr (i_train, i_test)"
  shows "i_train \<noteq> [] \<and> (\<exists>i\<in>set i_test. i < 0)"
proof -
  from assms obtain ts n_train n_test where
    nt: "first_shape0 X_train = Inr n_train" and
    it: "i_train = filter (\<lambda>i. i < int n_train)
           (filter (\<lambda>i. i < int n_train + int n_test)
             (index_where df (map (\<lambda>t. dt_month t \<in> set considered_months) ts)))" and
    ne: "i_train \<noteq> []" and
    te: "i_test = map (\<lambda>i. i - int n_train) (filter (\<lambda>i. last i_train \<le> i)
           (filter (\<lambda>i. i < int n_train + int n_test)
             (index_where df (map (\<lambda>t. dt_month t \<in> set considered_months) ts))))"
    by (auto simp: month_indices_def index_last_def Let_def split: sum.splits if_splits)
  have l: "last i_train \<in> set i_train" using ne by simp
  then have lt: "last i_train < int n_train" using it by auto
  have "last i_train \<in> set (filter (\<lambda>i. i < int n_train + int n_test)
             (index_where df (map (\<lambda>t. dt_month t \<in> set considered_months) ts)))"
    using l it by auto
  then have "last i_train - int n_train \<in> set i_test" using te by auto
  then show ?thesis using ne lt by force
qed


text \<open>
  Claim C6, evaluated on the ten-row table with eight windows, split date the first day of
  month 2 and \<open>considered_months = [1]\<close>. The split puts windows 0, 1 in train and 2 to 7 in
  test. The index arrays are \<open>i_train = [0, 1]\<close> and \<open>i_test = [-1, 0, 1]\<close>: a negative index
  is retained, and the test subset is \<open>[7, 2, 3]\<close>, whose first window (start row 7) lies in
  month 2, outside the allowed set.
\<close>

theorem month_filter_retains_negative_index:
  "train_test_split (example_collaborators 5) (3 / 10) winter_dataset
     = Inr ([[0, 1], [0, 1], [0, 1], [0, 1]], [0, 1],
            [[2, 3, 4, 5, 6, 7], [2, 3, 4, 5, 6, 7], [2, 3, 4, 5, 6, 7], [2, 3, 4, 5, 6, 7]],
            [2, 3, 4, 5, 6, 7])
   \<and> month_indices winter_table ''date / time'' [1]
        [[0, 1], [0, 1], [0, 1], [0, 1 :: nat]]
        [[2, 3, 4, 5, 6, 7], [2, 3, 4, 5, 6, 7], [2, 3, 4, 5, 6, 7], [2, 3, 4, 5, 6, 7 :: nat]]
     = Inr ([0, 1], [- 1, 0, 1])
   \<and> train_test_split_date (example_collaborators 5) ''date / time'' (Date 2020 2 1) (Some [1])
        winter_dataset
     = Inr ([[0, 1], [0, 1], [0, 1], [0, 1]], [0, 1],
            [[7, 2, 3], [7, 2, 3], [7, 2, 3], [7, 2, 3]], [7, 2, 3])
   \<and> dt_month (daily_stamp (24 + 7)) = 2"
proof -
  have a: "train_test_split (example_collaborators 5) (3 / 10) winter_dataset
     = Inr ([[0, 1], [0, 1], [0, 1], [0, 1]], [0, 1],
            [[2, 3, 4, 5, 6, 7], [2, 3, 4, 5, 6, 7], [2, 3, 4, 5, 6, 7], [2, 3, 4, 5, 6, 7]],
            [2, 3, 4, 5, 6, 7])"
    by code_simp
  have b: "month_indices winter_table ''date / time'' [1]
        [[0, 1], [0, 1], [0, 1], [0, 1 :: nat]]
        [[2, 3, 4, 5, 6, 7], [2, 3, 4, 5, 6, 7], [2, 3, 4, 5, 6, 7], [2, 3, 4, 5, 6, 7 :: nat]]
     = Inr ([0, 1], [- 1, 0, 1])"
    by code_simp
  have c: "train_test_split_date (example_collaborators 5) ''date / time'' (Date 2020 2 1)
        (Some [1]) winter_dataset
     = Inr ([[0, 1], [0, 1], [0, 1], [0, 1]], [0, 1],
            [[7, 2, 3], [7, 2, 3], [7, 2, 3], [7, 2, 3]], [7, 2, 3])"
    by code_simp
  have d: "dt_month (daily_stamp (24 + 7)) = 2"
    by (simp add: daily_stamp_def)
  from a b c d show ?thesis by (intro conjI)
qed

text \<open>
  Claim C7, evaluated on the same table. With split date the first day of month 2 and
  \<open>considered_months = [2]\<close> no train window matches, and the call raises \<open>IndexError\<close>.
  With split date the third day of month 2 and \<open>considered_months = [1]\<close> the test windows
  4 to 7 all start in month 2, so none matches, and the returned test subset is \<open>[7]\<close>, not
  empty.
\<close>

theorem month_filter_empty_subset:
  "train_test_split_date (example_collaborators 5) ''date / time'' (Date 2020 2 1) (Some [2])
     winter_dataset = Inl IndexError
   \<and> train_test_split (example_collaborators 5) (5 / 10) winter_dataset
     = Inr ([[0, 1, 2, 3], [0, 1, 2, 3], [0, 1, 2, 3], [0, 1, 2, 3]], [0, 1, 2, 3],
            [[4, 5, 6, 7], [4, 5, 6, 7], [4, 5, 6, 7], [4, 5, 6, 7]], [4, 5, 6, 7])
   \<and> map (\<lambda>i. dt_month (daily_stamp (24 + i))) [4, 5, 6, 7] = [2, 2, 2, 2]
   \<and> train_test_split_date (example_collaborators 5) ''date / time'' (Date 2020 2 3) (Some [1])
        winter_dataset
     = Inr ([[0, 1, 2, 3], [0, 1, 2, 3], [0, 1, 2, 3], [0, 1, 2, 3]], [0, 1, 2, 3],
            [[7], [7], [7], [7]], [7])"
proof -
  have a: "train_test_split_date (example_collaborators 5) ''date / time'' (Date 2020 2 1)
     (Some [2]) winter_dataset = Inl IndexError"
    by code_simp
  have b: "train_test_split (example_collaborators 5) (5 / 10) winter_dataset
     = Inr ([[0, 1, 2, 3], [0, 1, 2, 3], [0, 1, 2, 3], [0, 1, 2, 3]], [0, 1, 2, 3],
            [[4, 5, 6, 7], [4, 5, 6, 7], [4, 5, 6, 7], [4, 5, 6, 7]], [4, 5, 6, 7])"
    by code_simp
  have c: "map (\<lambda>i. dt_month (daily_stamp (24 + i))) [4, 5, 6, 7] = [2, 2, 2, 2]"
    by (simp add: daily_stamp_def)
  have d: "train_test_split_date (example_collaborators 5) ''date / time'' (Date 2020 2 3)
        (Some [1]) winter_dataset
     = Inr ([[0, 1, 2, 3], [0, 1, 2, 3], [0, 1, 2, 3], [0, 1, 2, 3]], [0, 1, 2, 3],
            [[7], [7], [7], [7]], [7])"
    by code_simp
  from a b c d show ?thesis by (intro conjI)
qed

section \<open>Saving and loading the configuration\<close>

lemma os_path_join_inject [simp]: "os_path_join p a = os_path_join p b \<longleftrightarrow> a = b"
  by (simp add: os_path_join_def)

lemma dict_set_other:
  "k' \<noteq> k \<Longrightarrow> map_of (dict_set d k v) k' = map_of d k'"
  by (induction d) auto

lemma json_loads_members_absent:
  "map_of acc (KStr k) = None \<Longrightarrow> k \<notin> fst ` set ms \<Longrightarrow>
   map_of (json_loads_members acc ms) (KStr k) = None"
proof (induction ms arbitrary: acc)
  case Nil
  then show ?case by simp
next
  case (Cons a ms)
  obtain k' j where a: "a = (k', j)" by (cases a)
  have "k' \<noteq> k" using Cons.prems(2) a by auto
  then have "map_of (dict_set acc (KStr k') (json_loads j)) (KStr k) = None"
    using Cons.prems(1) by (simp add: dict_set_other)
  moreover have "k \<notin> fst ` set ms" using Cons.prems(2) by auto
  ultimately show ?case using Cons.IH a by simp
qed

lemma object_lacks_key:
  "k \<notin> fst ` set ms \<Longrightarrow> py_getitem_str (json_loads (JObject ms)) k = Inl (KeyError k)"
  using json_loads_members_absent [of "[]" k ms] by (simp add: py_getitem_str_def)

text \<open>
  Claim C2, as stated, fails. With the pickled NaN handler removed from a saved
  configuration, \<open>load_dataset_config\<close> raises \<open>FileNotFoundError\<close>, not \<open>ConfigLoadError\<close>,
  and the target name of the fresh \<open>DataSet\<close> has already been overwritten by the value of
  the configuration. With an empty \<open>dataset_config.json\<close> it raises the \<open>JSONDecodeError\<close> of
  the parser, which names no artifact.
\<close>

theorem load_missing_artifact_counterexample:
  "fst (load_dataset_config (without_file saved_config ''cfg/NaNHandler.pkl'') ''cfg''
         (DataSet winter_table :: nat dataset))
     = Some (FileNotFoundError ''cfg/NaNHandler.pkl'')
   \<and> fst (load_dataset_config (without_file saved_config ''cfg/NaNHandler.pkl'') ''cfg''
         (DataSet winter_table :: nat dataset))
     \<noteq> Some (ConfigLoadError ''cfg/NaNHandler.pkl'')
   \<and> feature_target (DataSet winter_table :: nat dataset) = PNone
   \<and> feature_target (snd (load_dataset_config (without_file saved_config ''cfg/NaNHandler.pkl'')
         ''cfg'' (DataSet winter_table :: nat dataset))) = PStr ''load''
   \<and> fst (load_dataset_config (with_file saved_config ''cfg/dataset_config.json'' empty_file)
         ''cfg'' (DataSet winter_table :: nat dataset))
     = Some JSONDecodeError"
proof -
  have a: "fst (load_dataset_config (without_file saved_config ''cfg/NaNHandler.pkl'') ''cfg''
         (DataSet winter_table :: nat dataset))
     = Some (FileNotFoundError ''cfg/NaNHandler.pkl'')"
    by code_simp
  have b: "feature_target (DataSet winter_table :: nat dataset) = PNone"
    by (simp add: DataSet_def)
  have c: "feature_target (snd (load_dataset_config
         (without_file saved_config ''cfg/NaNHandler.pkl'')
         ''cfg'' (DataSet winter_table :: nat dataset))) = PStr ''load''"
    by code_simp
  have d: "fst (load_dataset_config (with_file saved_config ''cfg/dataset_config.json'' empty_file)
         ''cfg'' (DataSet winter_table :: nat dataset))
     = Some JSONDecodeError"
    by code_simp
  from a b c d show ?thesis by simp
qed

text \<open>
  Claim C2, amended. \<open>load_dataset_config\<close> reads in this order: \<open>dataset_config.json\<close>, the
  seven keys of the document (encoder features, decoder features, target, temporal
  encodings, flag, input length, output length), then the pickles of the NaN handler, the
  one-hot encoder, the input scaler and the target scaler. The first read that raises ends
  the call with the exception of that read, and every attribute read before it has been
  assigned: the state is unchanged only when \<open>dataset_config.json\<close> itself cannot be opened
  or parsed. A missing file raises \<open>FileNotFoundError\<close> carrying its path; a file that is
  there raises whatever \<open>json.load\<close> or \<open>pickle.load\<close> raises on it; a document that is a JSON
  object without one of the keys raises \<open>KeyError\<close> carrying the key. When no read raises,
  all eleven attributes are assigned.
\<close>

theorem load_dataset_config_failure:
  assumes "s_fie = self\<lparr>features_input_encoder := v_fie\<rparr>"
    and "s_fid = s_fie\<lparr>features_input_decoder := v_fid\<rparr>"
    and "s_ft = s_fid\<lparr>feature_target := v_ft\<rparr>"
    and "s_te = s_ft\<lparr>temporal_encodings := v_te\<rparr>"
    and "s_ar = s_te\<lparr>autoregressive := v_ar\<rparr>"
    and "s_li = s_ar\<lparr>input_seq_len := v_li\<rparr>"
    and "s_lo = s_li\<lparr>output_seq_len := v_lo\<rparr>"
    and "s_nan = s_lo\<lparr>nan_handler := w_nan\<rparr>"
    and "s_ohe = s_nan\<lparr>one_hot_encoder := w_ohe\<rparr>"
    and "s_sx = s_ohe\<lparr>scaler_X := w_sx\<rparr>"
  shows
   "(fs_files fs (os_path_join p ''dataset_config.json'') = None \<longrightarrow>
       load_dataset_config fs p self
         = (Some (FileNotFoundError (os_path_join p ''dataset_config.json'')), self))
    \<and> (json_load fs (os_path_join p ''dataset_config.json'') = Inl e \<longrightarrow>
       load_dataset_config fs p self = (Some e, self))
    \<and> (k \<notin> fst ` set ms \<longrightarrow> py_getitem_str (json_loads (JObject ms)) k = Inl (KeyError k))
    \<and> (json_load fs (os_path_join p ''dataset_config.json'') = Inr d \<longrightarrow>
      (py_getitem_str d ''features_input_encoder'' = Inl e \<longrightarrow>
         load_dataset_config fs p self = (Some e, self))
      \<and> (py_getitem_str d ''features_input_encoder'' = Inr v_fie \<longrightarrow>
      (py_getitem_str d ''features_input_decoder'' = Inl e \<longrightarrow>
         load_dataset_config fs p self = (Some e, s_fie))
      \<and> (py_getitem_str d ''features_input_decoder'' = Inr v_fid \<longrightarrow>
      (py_getitem_str d ''feature_target'' = Inl e \<longrightarrow>
         load_dataset_config fs p self = (Some e, s_fid))
      \<and> (py_getitem_str d ''feature_target'' = Inr v_ft \<longrightarrow>
      (py_getitem_str d ''temporal_encoding'' = Inl e \<longrightarrow>
         load_dataset_config fs p self = (Some e, s_ft))
      \<and> (py_getitem_str d ''temporal_encoding'' = Inr v_te \<longrightarrow>
      (py_getitem_str d ''autoregressive'' = Inl e \<longrightarrow>
         load_dataset_config fs p self = (Some e, s_te))
      \<and> (py_getitem_str d ''autoregressive'' = Inr v_ar \<longrightarrow>
      (py_getitem_str d ''input_seq_len'' = Inl e \<longrightarrow>
         load_dataset_config fs p self = (Some e, s_ar))
      \<and> (py_getitem_str d ''input_seq_len'' = Inr v_li \<longrightarrow>
      (py_getitem_str d ''output_seq_len'' = Inl e \<longrightarrow>
         load_dataset_config fs p self = (Some e, s_li))
      \<and> (py_getitem_str d ''output_seq_len'' = Inr v_lo \<longrightarrow>
      (fs_files fs (os_path_join p ''NaNHandler.pkl'') = None \<longrightarrow>
         load_dataset_config fs p self
           = (Some (FileNotFoundError (os_path_join p ''NaNHandler.pkl'')), s_lo))
      \<and> (pickle_load fs (os_path_join p ''NaNHandler.pkl'') = Inl e \<longrightarrow>
         load_dataset_config fs p self = (Some e, s_lo))
      \<and> (pickle_load fs (os_path_join p ''NaNHandler.pkl'') = Inr w_nan \<longrightarrow>
      (fs_files fs (os_path_join p ''OneHotEncoder.pkl'') = None \<longrightarrow>
         load_dataset_config fs p self
           = (Some (FileNotFoundError (os_path_join p ''OneHotEncoder.pkl'')), s_nan))
      \<and> (pickle_load fs (os_path_join p ''OneHotEncoder.pkl'') = Inl e \<longrightarrow>
         load_dataset_config fs p self = (Some e, s_nan))
      \<and> (pickle_load fs (os_path_join p ''OneHotEncoder.pkl'') = Inr w_ohe \<longrightarrow>
      (fs_files fs (os_path_join p ''scaler_X.pkl'') = None \<longrightarrow>
         load_dataset_config fs p self
           = (Some (FileNotFoundError (os_path_join p ''scaler_X.pkl'')), s_ohe))
      \<and> (pickle_load fs (os_path_join p ''scaler_X.pkl'') = Inl e \<longrightarrow>
         load_dataset_config fs p self = (Some e, s_ohe))
      \<and> (pickle_load fs (os_path_join p ''scaler_X.pkl'') = Inr w_sx \<longrightarrow>
      (fs_files fs (os_path_join p ''scaler_y.pkl'') = None \<longrightarrow>
         load_dataset_config fs p self
           = (Some (FileNotFoundError (os_path_join p ''scaler_y.pkl'')), s_sx))
      \<and> (pickle_load fs (os_path_join p ''scaler_y.pkl'') = Inl e \<longrightarrow>
         load_dataset_config fs p self = (Some e, s_sx))
      \<and> (pickle_load fs (os_path_join p ''scaler_y.pkl'') = Inr w_sy \<longrightarrow>
      load_dataset_config fs p self = (None, s_sx\<lparr>scaler_y := w_sy\<rparr>)))))))))))))"
  using assms object_lacks_key [of k ms]
  by (auto simp: load_dataset_config_def json_load_def pickle_load_def assign_item_def
      assign_pickle_def)

theorem load_dataset_config_failure_witness:
  "load_dataset_config empty_disk ''cfg'' (DataSet winter_table :: nat dataset)
     = (Some (FileNotFoundError ''cfg/dataset_config.json''), DataSet winter_table)
   \<and> load_dataset_config (with_file saved_config ''cfg/dataset_config.json'' empty_file) ''cfg''
        (DataSet winter_table :: nat dataset)
     = (Some JSONDecodeError, DataSet winter_table)
   \<and> load_dataset_config (with_file saved_config ''cfg/dataset_config.json'' two_key_document)
        ''cfg'' (DataSet winter_table :: nat dataset)
     = (Some (KeyError ''feature_target''),
        (DataSet winter_table)
          \<lparr>features_input_encoder := PList [PStr ''temperature''],
           features_input_decoder := PList []\<rparr>)
   \<and> load_dataset_config (without_file saved_config ''cfg/scaler_X.pkl'') ''cfg''
        (DataSet winter_table)
     = (Some (FileNotFoundError ''cfg/scaler_X.pkl''),
        loaded_config\<lparr>nan_handler := PObj 1, one_hot_encoder := PObj 2\<rparr>)
   \<and> load_dataset_config (with_file saved_config ''cfg/scaler_y.pkl'' empty_file) ''cfg''
        (DataSet winter_table)
     = (Some EOFError,
        loaded_config\<lparr>nan_handler := PObj 1, one_hot_encoder := PObj 2,
                      scaler_X := fitted_with (Some (1 / 2))\<rparr>)"
proof -
  have p [simp]: "\<And>n. os_path_join ''cfg'' n = ''cfg/'' @ n"
    by (simp add: os_path_join_def)
  note t = load_dataset_config_failure [OF refl refl refl refl refl refl refl refl refl refl]
  have a0: "fs_files empty_disk ''cfg/dataset_config.json'' = None"
    by (simp add: empty_disk_def)
  have a: "load_dataset_config empty_disk ''cfg'' (DataSet winter_table :: nat dataset)
     = (Some (FileNotFoundError ''cfg/dataset_config.json''), DataSet winter_table)"
    using t [where fs = empty_disk and p = "''cfg''"
        and self = "DataSet winter_table :: nat dataset"] a0
    by simp
  let ?fb = "with_file saved_config ''cfg/dataset_config.json'' empty_file"
  have b0: "json_load ?fb ''cfg/dataset_config.json'' = Inl JSONDecodeError"
    by code_simp
  have b: "load_dataset_config ?fb ''cfg'' (DataSet winter_table :: nat dataset)
     = (Some JSONDecodeError, DataSet winter_table)"
    using t [where fs = ?fb and p = "''cfg''" and e = JSONDecodeError
        and self = "DataSet winter_table :: nat dataset"] b0
    by simp
  let ?fc = "with_file saved_config ''cfg/dataset_config.json'' two_key_document"
  let ?dc = "PDict [(KStr ''features_input_encoder'', PList [PStr ''temperature'']),
                    (KStr ''features_input_decoder'', PList [])]"
  have c0: "json_load ?fc ''cfg/dataset_config.json'' = Inr ?dc"
    by code_simp
  have c1: "py_getitem_str ?dc ''features_input_encoder'' = Inr (PList [PStr ''temperature''])"
    "py_getitem_str ?dc ''features_input_decoder'' = Inr (PList [])"
    "py_getitem_str ?dc ''feature_target'' = Inl (KeyError ''feature_target'')"
    by (simp_all add: py_getitem_str_def)
  have c: "load_dataset_config ?fc ''cfg'' (DataSet winter_table :: nat dataset)
     = (Some (KeyError ''feature_target''),
        (DataSet winter_table)
          \<lparr>features_input_encoder := PList [PStr ''temperature''],
           features_input_decoder := PList []\<rparr>)"
    using t [where fs = ?fc and p = "''cfg''" and e = "KeyError ''feature_target''"
        and self = "DataSet winter_table :: nat dataset" and d = ?dc
        and v_fie = "PList [PStr ''temperature'']" and v_fid = "PList []"] c0 c1
    by simp
  have g: "py_getitem_str fitted_config_dict ''features_input_encoder''
             = Inr (PList [PStr ''temperature'', PStr ''load''])"
    "py_getitem_str fitted_config_dict ''features_input_decoder''
             = Inr (PList [PStr ''temperature''])"
    "py_getitem_str fitted_config_dict ''feature_target'' = Inr (PStr ''load'')"
    "py_getitem_str fitted_config_dict ''temporal_encoding''
       = Inr (PList [PList [PStr ''hours'', PDict [(KStr ''train_ratio'', PFloat (1 / 2))]]])"
    "py_getitem_str fitted_config_dict ''autoregressive'' = Inr (PBool True)"
    "py_getitem_str fitted_config_dict ''input_seq_len'' = Inr (PInt 3)"
    "py_getitem_str fitted_config_dict ''output_seq_len'' = Inr (PInt 2)"
    by (simp_all add: fitted_config_dict_def py_getitem_str_def)
  let ?fd = "without_file saved_config ''cfg/scaler_X.pkl''"
  have d0: "json_load ?fd ''cfg/dataset_config.json'' = Inr fitted_config_dict"
    by code_simp
  have d1: "pickle_load ?fd ''cfg/NaNHandler.pkl'' = Inr (PObj 1)"
    "pickle_load ?fd ''cfg/OneHotEncoder.pkl'' = Inr (PObj 2)"
    "fs_files ?fd ''cfg/scaler_X.pkl'' = None"
    by code_simp+
  have d: "load_dataset_config ?fd ''cfg'' (DataSet winter_table)
     = (Some (FileNotFoundError ''cfg/scaler_X.pkl''),
        loaded_config\<lparr>nan_handler := PObj 1, one_hot_encoder := PObj 2\<rparr>)"
    using t [where fs = ?fd and p = "''cfg''" and self = "DataSet winter_table :: nat dataset"
        and d = fitted_config_dict
        and v_fie = "PList [PStr ''temperature'', PStr ''load'']"
        and v_fid = "PList [PStr ''temperature'']" and v_ft = "PStr ''load''"
        and v_te = "PList [PList [PStr ''hours'', PDict [(KStr ''train_ratio'', PFloat (1 / 2))]]]"
        and v_ar = "PBool True" and v_li = "PInt 3" and v_lo = "PInt 2"
        and w_nan = "PObj 1" and w_ohe = "PObj 2"] d0 d1 g
    by (simp add: loaded_config_def)
  let ?fe = "with_file saved_config ''cfg/scaler_y.pkl'' empty_file"
  have e0: "json_load ?fe ''cfg/dataset_config.json'' = Inr fitted_config_dict"
    by code_simp
  have e1: "pickle_load ?fe ''cfg/NaNHandler.pkl'' = Inr (PObj 1)"
    "pickle_load ?fe ''cfg/OneHotEncoder.pkl'' = Inr (PObj 2)"
    "pickle_load ?fe ''cfg/scaler_X.pkl'' = Inr (fitted_with (Some (1 / 2)))"
    "pickle_load ?fe ''cfg/scaler_y.pkl'' = Inl EOFError"
    by code_simp+
  have e: "load_dataset_config ?fe ''cfg'' (DataSet winter_table)
     = (Some EOFError,
        loaded_config\<lparr>nan_handler := PObj 1, one_hot_encoder := PObj 2,
                      scaler_X := fitted_with (Some (1 / 2))\<rparr>)"
    using t [where fs = ?fe and p = "''cfg''" and self = "DataSet winter_table :: nat dataset"
        and d = fitted_config_dict and e = EOFError
        and v_fie = "PList [PStr ''temperature'', PStr ''load'']"
        and v_fid = "PList [PStr ''temperature'']" and v_ft = "PStr ''load''"
        and v_te = "PList [PList [PStr ''hours'', PDict [(KStr ''train_ratio'', PFloat (1 / 2))]]]"
        and v_ar = "PBool True" and v_li = "PInt 3" and v_lo = "PInt 2"
        and w_nan = "PObj 1" and w_ohe = "PObj 2" and w_sx = "fitted_with (Some (1 / 2))"]
      e0 e1 g
    by (simp add: loaded_config_def)
  from a b c d e show ?thesis by (intro conjI)
qed

subsection \<open>What a fitted data set holds\<close>





subsection \<open>What \<open>save_dataset_config\<close> writes\<close>





lemma dir_exists_files [simp]:
  "dir_exists (fs\<lparr>fs_files := f\<rparr>) d = dir_exists fs d"
  by (simp add: dir_exists_def)




lemma save_needs_directory:
  assumes "\<not> dir_exists fs (dirname (os_path_join p ''dataset_config.json''))"
  shows "save_dataset_config p s fs
           = Inl (FileNotFoundError (os_path_join p ''dataset_config.json''))"
  using assms by (simp add: save_dataset_config_def json_dump_def open_for_writing_def Let_def)



subsection \<open>\<open>process_from_config\<close> does not read the raw table\<close>











section \<open>Replaying a configuration\<close>

lemma load_overwrites_window_lengths:
  assumes "fst (load_dataset_config fs p self) = None"
  shows "load_dataset_config fs p (self\<lparr>input_seq_len := a\<rparr>) = load_dataset_config fs p self
     \<and> load_dataset_config fs p (self\<lparr>output_seq_len := b\<rparr>) = load_dataset_config fs p self
     \<and> load_dataset_config fs p (self\<lparr>input_seq_len := a, output_seq_len := b\<rparr>)
           = load_dataset_config fs p self"
proof (rule load_success_facts [OF assms])
  fix d v_fie v_fid v_ft v_te v_ar v_li v_lo w_nan w_ohe w_sx w_sy
  assume f: "json_load fs (os_path_join p ''dataset_config.json'') = Inr d"
    "py_getitem_str d ''features_input_encoder'' = Inr v_fie"
    "py_getitem_str d ''features_input_decoder'' = Inr v_fid"
    "py_getitem_str d ''feature_target'' = Inr v_ft"
    "py_getitem_str d ''temporal_encoding'' = Inr v_te"
    "py_getitem_str d ''autoregressive'' = Inr v_ar"
    "py_getitem_str d ''input_seq_len'' = Inr v_li"
    "py_getitem_str d ''output_seq_len'' = Inr v_lo"
    "pickle_load fs (os_path_join p ''NaNHandler.pkl'') = Inr w_nan"
    "pickle_load fs (os_path_join p ''OneHotEncoder.pkl'') = Inr w_ohe"
    "pickle_load fs (os_path_join p ''scaler_X.pkl'') = Inr w_sx"
    "pickle_load fs (os_path_join p ''scaler_y.pkl'') = Inr w_sy"
  note l = load_complete [OF f]
  show ?thesis by (simp add: l)
qed

text \<open>
  \<open>process_from_config\<close> stores the window lengths it is given before it loads the
  configuration, and a successful load assigns both lengths again: whenever the
  configuration loads, the arguments \<open>input_seq_len\<close> and \<open>output_seq_len\<close> change nothing.
\<close>

lemma process_from_config_override_ignored:
  assumes "fst (load_dataset_config fs p self) = None"
  shows "process_from_config c fs p a b self = process_from_config c fs p None None self"
proof -
  obtain s' where s': "load_dataset_config fs p self = (None, s')"
    using assms by (cases "load_dataset_config fs p self") simp
  show ?thesis
    using load_overwrites_window_lengths [OF assms] s'
    by (cases a; cases b) (simp_all add: process_from_config_def)
qed


text \<open>
  Claim C3, evaluated. The saved configuration holds the window lengths 3 and 2.
  \<open>process_from_config\<close> called on it with \<open>input_seq_len = 5\<close> and \<open>output_seq_len = 1\<close> returns
  what the call without them returns: the stored lengths are 3 and 2 afterwards, and the
  extraction ran with them (six windows on the ten-row table, where the lengths 5 and 1
  give five).
\<close>

theorem process_from_config_ignores_override:
  "input_seq_len (snd (load_dataset_config saved_config ''cfg'' replay_dataset)) = PInt 3
   \<and> output_seq_len (snd (load_dataset_config saved_config ''cfg'' replay_dataset)) = PInt 2
   \<and> process_from_config (example_collaborators 4) saved_config ''cfg'' (Some 5) (Some 1)
        replay_dataset
     = process_from_config (example_collaborators 4) saved_config ''cfg'' None None
        replay_dataset
   \<and> input_seq_len (snd (process_from_config (example_collaborators 4) saved_config ''cfg''
        (Some 5) (Some 1) replay_dataset)) = PInt 3
   \<and> output_seq_len (snd (process_from_config (example_collaborators 4) saved_config ''cfg''
        (Some 5) (Some 1) replay_dataset)) = PInt 2
   \<and> self_y (snd (process_from_config (example_collaborators 4) saved_config ''cfg''
        (Some 5) (Some 1) replay_dataset)) = Some [0, 1, 2, 3, 4, 5]
   \<and> example_extract 4 (Some winter_table) PNone PNone PNone (PInt 3) (PInt 2) 1 1
     = Inr [[0, 1, 2, 3, 4, 5], [0, 1, 2, 3, 4, 5], [0, 1, 2, 3, 4, 5], [0, 1, 2, 3, 4, 5]]
   \<and> example_extract 4 (Some winter_table) PNone PNone PNone (PInt 5) (PInt 1) 1 1
     = Inr [[0, 1, 2, 3, 4], [0, 1, 2, 3, 4], [0, 1, 2, 3, 4], [0, 1, 2, 3, 4]]"
proof -
  have a: "input_seq_len (snd (load_dataset_config saved_config ''cfg'' replay_dataset)) = PInt 3"
    by code_simp
  have b: "output_seq_len (snd (load_dataset_config saved_config ''cfg'' replay_dataset)) = PInt 2"
    by code_simp
  have ok: "fst (load_dataset_config saved_config ''cfg'' replay_dataset) = None"
    by code_simp
  have c: "process_from_config (example_collaborators 4) saved_config ''cfg'' (Some 5) (Some 1)
        replay_dataset
     = process_from_config (example_collaborators 4) saved_config ''cfg'' None None
        replay_dataset"
    by (rule process_from_config_override_ignored [OF ok])
  have d: "input_seq_len (snd (process_from_config (example_collaborators 4) saved_config ''cfg''
        (Some 5) (Some 1) replay_dataset)) = PInt 3"
    by code_simp
  have e: "output_seq_len (snd (process_from_config (example_collaborators 4) saved_config ''cfg''
        (Some 5) (Some 1) replay_dataset)) = PInt 2"
    by code_simp
  have f: "self_y (snd (process_from_config (example_collaborators 4) saved_config ''cfg''
        (Some 5) (Some 1) replay_dataset)) = Some [0, 1, 2, 3, 4, 5]"
    by code_simp
  have g: "example_extract 4 (Some winter_table) PNone PNone PNone (PInt 3) (PInt 2) 1 1
     = Inr [[0, 1, 2, 3, 4, 5], [0, 1, 2, 3, 4, 5], [0, 1, 2, 3, 4, 5], [0, 1, 2, 3, 4, 5]]"
    by code_simp
  have h: "example_extract 4 (Some winter_table) PNone PNone PNone (PInt 5) (PInt 1) 1 1
     = Inr [[0, 1, 2, 3, 4], [0, 1, 2, 3, 4], [0, 1, 2, 3, 4], [0, 1, 2, 3, 4]]"
    by code_simp
  from a b c d e f g h show ?thesis by (intro conjI)
qed

section \<open>The shape of the stored \<open>X\<close>\<close>

lemma autoregressive_outward:
  fixes s :: "'w dataset"
  shows "(s\<lparr>autoregressive := t\<rparr>)\<lparr>df_processed := d\<rparr>
           = (s\<lparr>df_processed := d\<rparr>)\<lparr>autoregressive := t\<rparr>"
    and "(s\<lparr>autoregressive := t\<rparr>)\<lparr>temporal_encodings := te\<rparr>
           = (s\<lparr>temporal_encodings := te\<rparr>)\<lparr>autoregressive := t\<rparr>"
    and "(s\<lparr>autoregressive := t\<rparr>)\<lparr>nan_handler := h\<rparr>
           = (s\<lparr>nan_handler := h\<rparr>)\<lparr>autoregressive := t\<rparr>"
    and "(s\<lparr>autoregressive := t\<rparr>)\<lparr>one_hot_encoder := h\<rparr>
           = (s\<lparr>one_hot_encoder := h\<rparr>)\<lparr>autoregressive := t\<rparr>"
    and "(s\<lparr>autoregressive := t\<rparr>)\<lparr>scaler_X := h\<rparr>
           = (s\<lparr>scaler_X := h\<rparr>)\<lparr>autoregressive := t\<rparr>"
    and "(s\<lparr>autoregressive := t\<rparr>)\<lparr>scaler_y := h\<rparr>
           = (s\<lparr>scaler_y := h\<rparr>)\<lparr>autoregressive := t\<rparr>"
    and "(s\<lparr>autoregressive := t\<rparr>)\<lparr>self_X := x\<rparr>
           = (s\<lparr>self_X := x\<rparr>)\<lparr>autoregressive := t\<rparr>"
    and "(s\<lparr>autoregressive := t\<rparr>)\<lparr>self_y := y\<rparr>
           = (s\<lparr>self_y := y\<rparr>)\<lparr>autoregressive := t\<rparr>"
    and "(s\<lparr>autoregressive := t\<rparr>)\<lparr>X_encoder := a\<rparr>
           = (s\<lparr>X_encoder := a\<rparr>)\<lparr>autoregressive := t\<rparr>"
    and "(s\<lparr>autoregressive := t\<rparr>)\<lparr>X_decoder := a\<rparr>
           = (s\<lparr>X_decoder := a\<rparr>)\<lparr>autoregressive := t\<rparr>"
    and "(s\<lparr>autoregressive := t\<rparr>)\<lparr>y_last := a\<rparr>
           = (s\<lparr>y_last := a\<rparr>)\<lparr>autoregressive := t\<rparr>"
    and "(s\<lparr>autoregressive := t\<rparr>)\<lparr>y_shifted := a\<rparr>
           = (s\<lparr>y_shifted := a\<rparr>)\<lparr>autoregressive := t\<rparr>"
  by simp_all

lemma process_temporal_ignores_flag:
  "process_temporal c ratio ft ms feats (s\<lparr>autoregressive := t\<rparr>)
     = (case process_temporal c ratio ft ms feats s of
          (e, f, r) \<Rightarrow> (e, f, r\<lparr>autoregressive := t\<rparr>))"
proof (induction ms arbitrary: feats s)
  case Nil
  then show ?case by simp
next
  case (Cons m ms)
  obtain fie fid where f: "feats = (fie, fid)" by (cases feats)
  show ?case
    unfolding f
    by (simp add: Cons.IH autoregressive_outward Let_def split: sum.splits prod.splits)
qed

lemma process_transform_ignores_flag:
  "process_transform c ratio mro mrnn fie fid ft (s\<lparr>autoregressive := t\<rparr>)
     = (case process_transform c ratio mro mrnn fie fid ft s of
          (e, r) \<Rightarrow> (e, r\<lparr>autoregressive := t\<rparr>))"
  unfolding process_transform_def
  by (rule run_commutes)
    (simp add: reset_index_stmt_def autoregressive_outward split: sum.splits option.splits)

lemma process_sequences_ignores_flag:
  "process_sequences c fie fid ft li lo (s\<lparr>autoregressive := t\<rparr>)
     = (case process_sequences c fie fid ft li lo s of
          (e, r) \<Rightarrow> (e, r\<lparr>autoregressive := t\<rparr>))"
  by (simp add: process_sequences_def Let_def autoregressive_outward
      split: sum.splits prod.splits)

lemma process_steps_ignores_flag:
  "process_steps c fie fid ft li lo sr sd tem mro mrnn (s\<lparr>autoregressive := t\<rparr>)
     = (case process_steps c fie fid ft li lo sr sd tem mro mrnn s of
          (e, r) \<Rightarrow> (e, r\<lparr>autoregressive := t\<rparr>))"
proof -
  have sr: "process_split_ratio (s\<lparr>autoregressive := t\<rparr>) sr sd = process_split_ratio s sr sd"
    by (simp add: process_split_ratio_def split: option.splits)
  have two: "\<And>ratio fie' fid' s'.
      run [process_transform c ratio mro mrnn fie' fid' ft,
           process_sequences c fie' fid' ft li lo] (s'\<lparr>autoregressive := t\<rparr>)
      = (case run [process_transform c ratio mro mrnn fie' fid' ft,
                   process_sequences c fie' fid' ft li lo] s' of
           (e, r) \<Rightarrow> (e, r\<lparr>autoregressive := t\<rparr>))"
    by (rule run_commutes)
      (simp add: process_transform_ignores_flag process_sequences_ignores_flag)
  show ?thesis
    unfolding process_steps_def sr
    by (simp add: process_temporal_ignores_flag two Let_def del: run.simps
        split: sum.splits prod.splits option.splits)
qed

lemma process_ignores_flag:
  "process c tc fie fid ft li lo sr sd tem mro mrnn ar self
     = (if sr = None \<and> sd = None then (Some AssertionError, self)
        else case process c tc fie fid ft li lo sr sd tem mro mrnn ar' self of
               (e, r) \<Rightarrow> (e, r\<lparr>autoregressive := PBool ar\<rparr>))"
proof -
  let ?Q = "\<lambda>flag. self\<lparr>time_col := Some tc, df_processed := Some (df_raw self),
      autoregressive := PBool flag, features_input_encoder := PList (map PStr fie),
      features_input_decoder := PList (map PStr fid), feature_target := PStr ft,
      input_seq_len := PInt li, output_seq_len := PInt lo, min_rel_occurrence := mro\<rparr>"
  have q: "?Q ar = (?Q ar')\<lparr>autoregressive := PBool ar\<rparr>" by simp
  have p: "\<And>flag. \<not> (sr = None \<and> sd = None) \<Longrightarrow>
      process c tc fie fid ft li lo sr sd tem mro mrnn flag self
        = process_steps c fie fid ft li lo sr sd tem mro mrnn (?Q flag)"
    by (auto simp: process_def Let_def)
  show ?thesis
  proof (cases "sr = None \<and> sd = None")
    case True
    then show ?thesis by (simp add: process_def)
  next
    case False
    have "process c tc fie fid ft li lo sr sd tem mro mrnn ar self
        = process_steps c fie fid ft li lo sr sd tem mro mrnn ((?Q ar')\<lparr>autoregressive := PBool ar\<rparr>)"
      using p [OF False, of ar] q by simp
    also have "\<dots> = (case process_steps c fie fid ft li lo sr sd tem mro mrnn (?Q ar') of
          (e, r) \<Rightarrow> (e, r\<lparr>autoregressive := PBool ar\<rparr>))"
      by (rule process_steps_ignores_flag)
    finally show ?thesis using False p [OF False, of ar'] by auto
  qed
qed

text \<open>
  Claim C9. Whenever \<open>process\<close> returns, \<open>self.X\<close> is the four-element list
  \<open>[X_encoder, X_decoder, y_shifted, y_last]\<close> of the arrays that the extractor returned
  (five arrays, in the order \<open>X_encoder, X_decoder, y, y_shifted, y_last\<close>), for every value
  of the flag; the exception and the stored \<open>X\<close> are the same with the flag on and with the
  flag off. Whenever \<open>process_from_config\<close> returns, \<open>self.X\<close> is \<open>[X_encoder, X_decoder,
  y_last]\<close> when the loaded flag is true and \<open>[X_encoder, X_decoder]\<close> when it is false, of
  the four arrays that the extractor returned. So the two lists never have the same length.
\<close>

theorem process_and_replay_store_different_X:
  "(process c tc fie fid ft li lo sr sd tem mro mrnn ar self = (None, r) \<longrightarrow>
      (\<exists>Xe Xd y ysh yl d f g.
          extract_sequences_encoder_decoder c d f g (PStr ft) (PInt li) (PInt lo) 1 1
            = Inr [Xe, Xd, y, ysh, yl]
          \<and> self_X r = Some [Xe, Xd, ysh, yl] \<and> self_y r = Some y
          \<and> X_encoder r = Some Xe \<and> X_decoder r = Some Xd
          \<and> y_shifted r = Some ysh \<and> y_last r = Some yl))
   \<and> fst (process c tc fie fid ft li lo sr sd tem mro mrnn True self)
       = fst (process c tc fie fid ft li lo sr sd tem mro mrnn False self)
   \<and> self_X (snd (process c tc fie fid ft li lo sr sd tem mro mrnn True self))
       = self_X (snd (process c tc fie fid ft li lo sr sd tem mro mrnn False self))
   \<and> (process_from_config c' fs p a b self' = (None, r') \<longrightarrow>
      (\<exists>Xe Xd y yl d f g t n m.
          extract_sequences_encoder_decoder c' d f g t n m 1 1 = Inr [Xe, Xd, y, yl]
          \<and> self_X r' = Some (if py_truthy (autoregressive r') then [Xe, Xd, yl] else [Xe, Xd])
          \<and> self_y r' = Some y))
   \<and> (process c tc fie fid ft li lo sr sd tem mro mrnn ar self = (None, r)
       \<and> process_from_config c' fs p a b self' = (None, r') \<longrightarrow>
      (\<exists>X X'. self_X r = Some X \<and> self_X r' = Some X' \<and> length X = 4
          \<and> length X' = (if py_truthy (autoregressive r') then 3 else 2)
          \<and> length X \<noteq> length X'))"
proof -
  have a: "process c tc fie fid ft li lo sr sd tem mro mrnn ar self = (None, r) \<Longrightarrow>
      (\<exists>Xe Xd y ysh yl d f g.
          extract_sequences_encoder_decoder c d f g (PStr ft) (PInt li) (PInt lo) 1 1
            = Inr [Xe, Xd, y, ysh, yl]
          \<and> self_X r = Some [Xe, Xd, ysh, yl] \<and> self_y r = Some y
          \<and> X_encoder r = Some Xe \<and> X_decoder r = Some Xd
          \<and> y_shifted r = Some ysh \<and> y_last r = Some yl)"
    by (rule process_stores)
  have flag: "process c tc fie fid ft li lo sr sd tem mro mrnn True self
     = (if sr = None \<and> sd = None then (Some AssertionError, self)
        else case process c tc fie fid ft li lo sr sd tem mro mrnn False self of
               (e, r) \<Rightarrow> (e, r\<lparr>autoregressive := PBool True\<rparr>))"
    by (rule process_ignores_flag)
  have b: "fst (process c tc fie fid ft li lo sr sd tem mro mrnn True self)
       = fst (process c tc fie fid ft li lo sr sd tem mro mrnn False self)"
  proof (cases "sr = None \<and> sd = None")
    case True
    then show ?thesis by (simp add: process_def)
  next
    case False
    then show ?thesis by (subst flag) (auto split: prod.splits)
  qed
  have b': "self_X (snd (process c tc fie fid ft li lo sr sd tem mro mrnn True self))
       = self_X (snd (process c tc fie fid ft li lo sr sd tem mro mrnn False self))"
  proof (cases "sr = None \<and> sd = None")
    case True
    then show ?thesis by (simp add: process_def)
  next
    case False
    then show ?thesis by (subst flag) (auto split: prod.splits)
  qed
  have c: "process_from_config c' fs p a b self' = (None, r') \<Longrightarrow>
      (\<exists>Xe Xd y yl d f g t n m.
          extract_sequences_encoder_decoder c' d f g t n m 1 1 = Inr [Xe, Xd, y, yl]
          \<and> self_X r' = Some (if py_truthy (autoregressive r') then [Xe, Xd, yl] else [Xe, Xd])
          \<and> self_y r' = Some y)"
    by (rule process_from_config_stores)
  have d: "process c tc fie fid ft li lo sr sd tem mro mrnn ar self = (None, r)
       \<and> process_from_config c' fs p a b self' = (None, r') \<Longrightarrow>
      (\<exists>X X'. self_X r = Some X \<and> self_X r' = Some X' \<and> length X = 4
          \<and> length X' = (if py_truthy (autoregressive r') then 3 else 2)
          \<and> length X \<noteq> length X')"
  proof -
    assume h: "process c tc fie fid ft li lo sr sd tem mro mrnn ar self = (None, r)
       \<and> process_from_config c' fs p a b self' = (None, r')"
    from h a obtain Xe Xd ysh yl where x: "self_X r = Some [Xe, Xd, ysh, yl]" by blast
    from h c obtain Xe' Xd' yl' where
      x': "self_X r' = Some (if py_truthy (autoregressive r') then [Xe', Xd', yl']
                            else [Xe', Xd'])"
      by blast
    show ?thesis using x x' by simp
  qed
  from a b b' c d show ?thesis by blast
qed

theorem process_and_replay_store_different_X_witness:
  "process (example_collaborators 5) ''date / time'' [''temperature'', ''load'']
      [''temperature''] ''load'' 3 2 (Some (1 / 2)) None (Some [''hours'']) None None True
      (DataSet winter_table) = (None, fitted_dataset)
   \<and> self_X fitted_dataset
       = Some [[0, 1, 2, 3, 4, 5], [0, 1, 2, 3, 4, 5], [0, 1, 2, 3, 4, 5], [0, 1, 2, 3, 4, 5]]
   \<and> self_X plain_dataset = self_X fitted_dataset
   \<and> fst (process_from_config (example_collaborators 4) saved_config ''cfg'' None None
            replay_dataset) = None
   \<and> self_X (snd (process_from_config (example_collaborators 4) saved_config ''cfg'' None None
                    replay_dataset))
       = Some [[0, 1, 2, 3, 4, 5], [0, 1, 2, 3, 4, 5], [0, 1, 2, 3, 4, 5]]
   \<and> fst (process_from_config (example_collaborators 4) saved_plain ''cfg'' None None
            replay_dataset) = None
   \<and> self_X (snd (process_from_config (example_collaborators 4) saved_plain ''cfg'' None None
                    replay_dataset))
       = Some [[0, 1, 2, 3, 4, 5], [0, 1, 2, 3, 4, 5]]
   \<and> (\<exists>X X'. self_X fitted_dataset = Some X
         \<and> self_X (snd (process_from_config (example_collaborators 4) saved_config ''cfg'' None
                          None replay_dataset)) = Some X'
         \<and> length X = 4 \<and> length X' = 3 \<and> length X \<noteq> length X')"
proof -
  let ?P = "process (example_collaborators 5) ''date / time'' [''temperature'', ''load'']
      [''temperature''] ''load'' 3 2 (Some (1 / 2)) None (Some [''hours'']) None None True
      (DataSet winter_table)"
  let ?R = "process_from_config (example_collaborators 4) saved_config ''cfg'' None None
      replay_dataset"
  let ?R' = "process_from_config (example_collaborators 4) saved_plain ''cfg'' None None
      replay_dataset"
  have p0: "fst ?P = None" by code_simp
  have p: "?P = (None, fitted_dataset)"
    unfolding fitted_dataset_def using p0 by (metis prod.collapse)
  have x: "self_X fitted_dataset
       = Some [[0, 1, 2, 3, 4, 5], [0, 1, 2, 3, 4, 5], [0, 1, 2, 3, 4, 5], [0, 1, 2, 3, 4, 5]]"
    by code_simp
  have x': "self_X plain_dataset = self_X fitted_dataset" by code_simp
  have r0: "fst ?R = None" by code_simp
  have r: "?R = (None, snd ?R)" using r0 by (metis prod.collapse)
  have rx: "self_X (snd ?R) = Some [[0, 1, 2, 3, 4, 5], [0, 1, 2, 3, 4, 5], [0, 1, 2, 3, 4, 5]]"
    by code_simp
  have q0: "fst ?R' = None" by code_simp
  have qx: "self_X (snd ?R') = Some [[0, 1, 2, 3, 4, 5], [0, 1, 2, 3, 4, 5]]"
    by code_simp
  have flag: "py_truthy (autoregressive (snd ?R))" by code_simp
  note t = process_and_replay_store_different_X
    [where c = "example_collaborators 5" and tc = "''date / time''"
      and fie = "[''temperature'', ''load'']" and fid = "[''temperature'']" and ft = "''load''"
      and li = 3 and lo = 2 and sr = "Some (1 / 2)" and sd = None and tem = "Some [''hours'']"
      and mro = None and mrnn = None and ar = True and self = "DataSet winter_table"
      and r = fitted_dataset and c' = "example_collaborators 4" and fs = saved_config
      and p = "''cfg''" and a = None and b = None and self' = replay_dataset and r' = "snd ?R",
      THEN conjunct2, THEN conjunct2, THEN conjunct2, THEN conjunct2, rule_format,
      OF conjI [OF p r]]
  have e: "\<exists>X X'. self_X fitted_dataset = Some X \<and> self_X (snd ?R) = Some X'
         \<and> length X = 4 \<and> length X' = 3 \<and> length X \<noteq> length X'"
    using t flag by simp
  from p x x' r0 rx q0 qx e show ?thesis by blast
qed


end
